theory Spec2Isabelle
  imports Main
begin

unbundle bit_operations_syntax

section \<open>TestKit: a process-isolated test harness\<close>

text \<open>
  The development follows \<^verbatim>\<open>testkit.c\<close>: registration of test cases
  (\<^verbatim>\<open>tk_add_test\<close>), the code a test's child process runs
  (\<^verbatim>\<open>run_testcase\<close>), the classification of the child's wait status
  (\<^verbatim>\<open>check_results\<close>), the cleanup child (\<^verbatim>\<open>run_cleanup\<close>) and the
  driver loop (\<^verbatim>\<open>run_all_testcases\<close>).
\<close>

subsection \<open>Callbacks and their behaviour\<close>

text \<open>
  A C callback is a function pointer; what the model keeps of it is what calling it does
  inside its process: the text it writes to \<^verbatim>\<open>stdout\<close>/\<^verbatim>\<open>stderr\<close> and how the
  call ends. It either returns, or ends the process itself with \<^verbatim>\<open>exit\<close>, or the
  process is killed by a signal while it runs, or it is still running when the time limit
  is reached.
\<close>

datatype 'a run = Return 'a | Exit int | Kill int | Hang

type_synonym 'a proc = "string \<times> 'a run"

text \<open>
  \<^verbatim>\<open>struct tk_result\<close>, as \<^verbatim>\<open>run_testcase\<close> fills it in; its field
  \<^verbatim>\<open>output\<close> is \<open>output_buf\<close> here.
\<close>

record tk_result =
  exit_status :: int
  output_buf :: string

text \<open>
  \<^verbatim>\<open>struct tk_testcase\<close>, with the fields \<^verbatim>\<open>testkit.c\<close> reads. A null function
  pointer is \<open>None\<close>. \<^verbatim>\<open>argv\<close> is a pointer to an array of string pointers: \<open>None\<close>
  is the null pointer, and the list holds the array's slots, each a string or \<^verbatim>\<open>NULL\<close>.
\<close>

record tk_testcase =
  name :: string
  loc :: string
  init :: "unit proc option"
  fini :: "unit proc option"
  utest :: "unit proc option"
  stest :: "(tk_result \<Rightarrow> unit proc) option"
  argc :: int
  argv :: "string option list option"

text \<open>
  What the program takes from its surroundings: the two constants of \<^verbatim>\<open>testkit.h\<close>
  that bound the registry and the running time of a child, the environment of the
  process, whether standard output is a terminal, \<^verbatim>\<open>strsignal\<close> of the C library,
  the host program's \<^verbatim>\<open>main\<close>, whether a process killed by a given signal leaves
  a core dump, whether \<^verbatim>\<open>fmemopen\<close> succeeds in a test's child, and whether the
  \<open>i\<close>-th \<^verbatim>\<open>mmap\<close> of the driver loop succeeds. \<^verbatim>\<open>malloc\<close> and \<^verbatim>\<open>fork\<close> are
  taken to succeed.
\<close>

record platform =
  TK_MAX_TESTS :: nat
  TK_TIME_LIMIT_SEC :: nat
  getenv :: "string \<Rightarrow> string option"
  isatty :: bool
  strsignal :: "int \<Rightarrow> string"
  host_main :: "int \<Rightarrow> string option list option \<Rightarrow> int proc"
  coredump :: "int \<Rightarrow> bool"
  fmemopen_ok :: bool
  mmap_ok :: "nat \<Rightarrow> bool"

text \<open>
  The names of the two activation variables are macros of \<^verbatim>\<open>testkit.h\<close>. The
  repository's notes on TestKit (\<^verbatim>\<open>explain-test-kit.md\<close>) call them the
  \<^verbatim>\<open>TK_RUN\<close> and \<^verbatim>\<open>TK_VERBOSE\<close> environment variables and run the tests with
  \<^verbatim>\<open>TK_RUN=1\<close>. No property below depends on the two names.
\<close>

definition TK_RUN :: string where
  "TK_RUN = ''TK_RUN''"

definition TK_VERBOSE :: string where
  "TK_VERBOSE = ''TK_VERBOSE''"

subsection \<open>Wait status\<close>

text \<open>
  \<^verbatim>\<open>waitpid\<close> stores an \<^verbatim>\<open>int\<close>; the macros that read it are those of the
  C library on Linux: the low seven bits hold the terminating signal, bit 7 the core
  flag, bits 8 to 15 the exit code.
\<close>

definition SIGABRT :: int where "SIGABRT = 6"
definition SIGSEGV :: int where "SIGSEGV = 11"
definition SIGALRM :: int where "SIGALRM = 14"

definition WTERMSIG :: "int \<Rightarrow> int" where
  "WTERMSIG status = status AND 0x7f"

definition WEXITSTATUS :: "int \<Rightarrow> int" where
  "WEXITSTATUS status = drop_bit 8 (status AND 0xff00)"

definition WIFEXITED :: "int \<Rightarrow> bool" where
  "WIFEXITED status = (WTERMSIG status = 0)"

text \<open>The cast to \<^verbatim>\<open>signed char\<close> in \<^verbatim>\<open>WIFSIGNALED\<close>, on a value in \<open>0..255\<close>.\<close>

definition signed_char :: "int \<Rightarrow> int" where
  "signed_char v = (if v \<ge> 128 then v - 256 else v)"

definition WIFSIGNALED :: "int \<Rightarrow> bool" where
  "WIFSIGNALED status = (signed_char ((status AND 0x7f) + 1) div 2 > 0)"

text \<open>
  The status the parent collects for each way a process can end. \<^verbatim>\<open>exit(r)\<close> and a
  return value \<open>r\<close> handed to \<^verbatim>\<open>exit\<close> leave \<open>r AND 0xff\<close> as the exit code. The child
  has called \<^verbatim>\<open>alarm(TK_TIME_LIMIT_SEC)\<close>: a call still running at the limit is
  killed by \<^verbatim>\<open>SIGALRM\<close>, but \<^verbatim>\<open>alarm(0)\<close> sets no alarm, and then the child never
  ends and \<^verbatim>\<open>waitpid\<close> never returns (\<open>None\<close>).
\<close>

definition W_EXITCODE :: "int \<Rightarrow> int \<Rightarrow> int" where
  "W_EXITCODE ret sig = push_bit 8 ret OR sig"

fun wait_status :: "platform \<Rightarrow> int run \<Rightarrow> int option" where
  "wait_status p (Return r) = Some (W_EXITCODE (r AND 0xff) 0)"
| "wait_status p (Exit r) = Some (W_EXITCODE (r AND 0xff) 0)"
| "wait_status p (Kill sig) = Some (if coredump p sig then sig OR 0x80 else sig)"
| "wait_status p Hang = (if TK_TIME_LIMIT_SEC p = 0 then None else Some SIGALRM)"

subsection \<open>Formatting\<close>

definition digit :: "nat \<Rightarrow> char" where
  "digit d = char_of (48 + d)"

text \<open>\<^verbatim>\<open>%d\<close> of a non-negative number.\<close>

fun dec :: "nat \<Rightarrow> string" where
  "dec n = (if n < 10 then [digit n] else dec (n div 10) @ [digit (n mod 10)])"

declare dec.simps [simp del]

definition ESC :: char where
  "ESC = CHR 0x1B"

definition NL :: char where
  "NL = CHR 0x0A"

text \<open>
  \<^verbatim>\<open>pcol\<close> formats into a static buffer of 64 bytes with \<^verbatim>\<open>snprintf\<close>, which keeps
  at most 63 characters.
\<close>

definition pcol :: "platform \<Rightarrow> string \<Rightarrow> nat \<Rightarrow> string" where
  "pcol p s color =
     take 63 (if isatty p
              then [ESC] @ ''[0;'' @ dec color @ ''m'' @ s @ [ESC] @ ''[0;0m''
              else s)"

text \<open>\<^verbatim>\<open>printf(fmt, arg)\<close> for a format with one \<^verbatim>\<open>%s\<close> and no other directive.\<close>

fun printf_s :: "string \<Rightarrow> string \<Rightarrow> string" where
  "printf_s (c # d # fs) a =
     (if c = CHR ''%'' \<and> d = CHR ''s'' then a @ fs else c # printf_s (d # fs) a)"
| "printf_s fs a = fs"

subsection \<open>Classifying a child's termination\<close>

text \<open>
  The message of a \<^verbatim>\<open>FAIL\<close> line. In the source \<^verbatim>\<open>msg\<close> points into the static
  buffer of \<^verbatim>\<open>pcol\<close>, so it reads what the last call of \<^verbatim>\<open>pcol\<close> wrote: the
  default \<^verbatim>\<open>"unknown error"\<close> unless the switch on the signal ran.
\<close>

definition fail_msg :: "platform \<Rightarrow> int \<Rightarrow> string" where
  "fail_msg p status =
     (if WIFSIGNALED status then
        (let sig = WTERMSIG status in
         if sig = SIGALRM then pcol p ''Timeout'' 33
         else if sig = SIGABRT then pcol p ''Assertion fail'' 35
         else if sig = SIGSEGV then pcol p ''Segmentation fault'' 36
         else pcol p (strsignal p sig) 31)
      else pcol p ''unknown error'' 31)"

text \<open>\<^verbatim>\<open>check_results\<close> returns \<^verbatim>\<open>succ\<close>; the second component is what it prints.\<close>

definition check_results :: "platform \<Rightarrow> tk_testcase \<Rightarrow> int \<Rightarrow> bool \<times> string" where
  "check_results p t status =
     (if WIFEXITED status then
        (True, ''- ['' @ pcol p ''PASS'' 32 @ ''] '' @ name t @ '' ('' @ loc t @ '')'' @ [NL])
      else
        (False, ''- ['' @ pcol p ''FAIL'' 31 @ ''] '' @ name t @ '' ('' @ loc t @ '')''
                @ '' - '' @ fail_msg p status @ [NL]))"

subsection \<open>Fatal errors\<close>

text \<open>
  \<open>Fatal\<close> is a failed \<^verbatim>\<open>tk_assert\<close>, with its message. \<open>Undefined\<close> stands for
  an access outside an array or an overflow of \<^verbatim>\<open>int\<close>, where C gives the program
  no meaning.
\<close>

datatype error = Fatal string | Undefined

text \<open>
  Modelled from the spec: the macro \<^verbatim>\<open>tk_assert\<close> of \<^verbatim>\<open>testkit.h\<close>, which is not
  among the sources. A failed assertion is fatal: it ends the process that made it, by
  an abort-type termination. \<open>None\<close> is the assertion that holds.
\<close>

definition tk_assert :: "bool \<Rightarrow> string \<Rightarrow> error option" where
  "tk_assert cond msg = (if cond then None else Some (Fatal msg))"

subsection \<open>Registration\<close>

definition INT_MAX :: int where
  "INT_MAX = 2147483647"

text \<open>
  The block of \<^verbatim>\<open>tk_add_test\<close> under \<^verbatim>\<open>if (t.argv)\<close>. Two sums are computed
  in \<^verbatim>\<open>int\<close>: \<^verbatim>\<open>t.argc + 1\<close> for the new \<^verbatim>\<open>argc\<close>, and \<^verbatim>\<open>argc + 1\<close> for the
  number of slots in the size given to \<^verbatim>\<open>malloc\<close>; either overflows beyond
  \<^verbatim>\<open>INT_MAX\<close>. The new array has \<open>argc + 1\<close> slots; \<^verbatim>\<open>malloc\<close> leaves them
  undetermined, and every slot is written before the record is stored. The loop reads
  \<^verbatim>\<open>t.argv[i - 1]\<close> for \<open>i = 1, ..., argc - 1\<close>.
\<close>

definition expand_argv :: "platform \<Rightarrow> tk_testcase \<Rightarrow> error + tk_testcase" where
  "expand_argv p t =
     (case argv t of
        None \<Rightarrow> Inr t
      | Some a \<Rightarrow>
         (case tk_assert (stest t \<noteq> None) ''Only system tests can have argv'' of
            Some e \<Rightarrow> Inl e
          | None \<Rightarrow>
             (let argc' = argc t + 1 in
              if argc' > INT_MAX \<or> argc' + 1 > INT_MAX \<or> argc' < 0 then Inl Undefined
              else
               (let argv0 = (replicate (nat argc' + 1) None)[nat argc' := None];
                    argv1 = argv0[0 := getenv p ''_'']
                in case tk_assert (argv1 ! 0 \<noteq> None)
                     (''TestKit requires shell put executable in environ; '' @
                      ''try run with bash'') of
                     Some e \<Rightarrow> Inl e
                   | None \<Rightarrow>
                      if argc t > int (length a) then Inl Undefined
                      else Inr (t\<lparr>argc := argc',
                                  argv := Some (fold (\<lambda>i v. v[i := a ! (i - 1)])
                                                  [1..<nat argc'] argv1)\<rparr>)))))"

text \<open>
  The registry is the array \<^verbatim>\<open>tests\<close> up to \<^verbatim>\<open>ntests\<close>: a list, whose length is
  \<^verbatim>\<open>ntests\<close>.
\<close>

definition tk_add_test ::
  "platform \<Rightarrow> tk_testcase list \<Rightarrow> tk_testcase \<Rightarrow> error + tk_testcase list" where
  "tk_add_test p tests t =
     (if getenv p TK_RUN = None \<and> getenv p TK_VERBOSE = None then Inr tests
      else
       (case expand_argv p t of
          Inl e \<Rightarrow> Inl e
        | Inr t' \<Rightarrow>
           (case tk_assert (length tests < TK_MAX_TESTS p)
                   ''TestKit supports up to %d test cases'' of
              Some e \<Rightarrow> Inl e
            | None \<Rightarrow> Inr (tests @ [t']))))"

text \<open>Registering a sequence of records, one call after the other.\<close>

fun add_tests ::
  "platform \<Rightarrow> tk_testcase list \<Rightarrow> tk_testcase list \<Rightarrow> error + tk_testcase list" where
  "add_tests p tests [] = Inr tests"
| "add_tests p tests (t # ts) =
     (case tk_add_test p tests t of
        Inl e \<Rightarrow> Inl e
      | Inr tests' \<Rightarrow> add_tests p tests' ts)"

subsection \<open>The child that runs a test\<close>

text \<open>
  \<^verbatim>\<open>run_testcase\<close>, in the child. The result is what the child wrote before the
  redirection (that is, what \<^verbatim>\<open>init\<close> wrote, to the stream inherited from the
  driver), the text in the capture buffer, and how the function ends: \<open>Return r\<close> is
  its return value. The text a callback writes is taken to fit the buffer and to hold
  no null character, so that the buffer read as a C string is that text. A call
  through a null \<^verbatim>\<open>utest\<close> pointer is a segmentation fault.
\<close>

definition run_testcase :: "platform \<Rightarrow> tk_testcase \<Rightarrow> string \<times> string \<times> int run" where
  "run_testcase p t =
     (case (case init t of None \<Rightarrow> ([], Return ()) | Some i \<Rightarrow> i) of
        (o0, Return _) \<Rightarrow>
          (case tk_assert (fmemopen_ok p) ''fmemopen() should succeed'' of
             Some e \<Rightarrow> (o0, [], Kill SIGABRT)
           | None \<Rightarrow>
              (case stest t of
                 Some st \<Rightarrow>
                   (case host_main p (argc t) (argv t) of
                      (o1, Return r) \<Rightarrow>
                        (case st \<lparr>exit_status = r, output_buf = o1\<rparr> of
                           (o2, e) \<Rightarrow> (o0, o1 @ o2, map_run (\<lambda>_. r) e))
                    | (o1, e) \<Rightarrow> (o0, o1, e))
               | None \<Rightarrow>
                   (case utest t of
                      None \<Rightarrow> (o0, [], Kill SIGSEGV)
                    | Some (o1, e) \<Rightarrow> (o0, o1, map_run (\<lambda>_. 0) e))))
      | (o0, e) \<Rightarrow> (o0, [], map_run (\<lambda>_. 0) e))"

text \<open>
  The child of the driver loop: \<^verbatim>\<open>alarm(TK_TIME_LIMIT_SEC); exit(run_testcase(t, buf));\<close>
  and the status \<^verbatim>\<open>waitpid\<close> gives the parent for it.
\<close>

definition test_child :: "platform \<Rightarrow> tk_testcase \<Rightarrow> string \<times> string \<times> int option" where
  "test_child p t =
     (case run_testcase p t of (o0, buf, e) \<Rightarrow> (o0, buf, wait_status p e))"

text \<open>The child of \<^verbatim>\<open>run_cleanup\<close>: \<^verbatim>\<open>alarm(TK_TIME_LIMIT_SEC); t->fini(); exit(0);\<close>\<close>

definition fini_child :: "platform \<Rightarrow> unit proc \<Rightarrow> string \<times> int option" where
  "fini_child p f = (case f of (out, e) \<Rightarrow> (out, wait_status p (map_run (\<lambda>_. 0) e)))"

subsection \<open>The driver\<close>

text \<open>
  What the driver does is a trace: \<open>Printf s\<close> is text the driver itself prints,
  \<open>Forked prog i limit out status\<close> a child forked for \<^verbatim>\<open>tests[i]\<close> that sets its
  alarm to \<open>limit\<close> seconds, writes \<open>out\<close> to the inherited stream, and for which
  \<^verbatim>\<open>waitpid\<close> returns \<open>status\<close> (\<open>None\<close>: it never returns). A run of the driver
  ends by returning, by a fatal error, or never.
\<close>

datatype prog = Testcase | Cleanup

datatype event = Printf string | Forked prog nat nat string "int option"

datatype ending = Finished | Died error | Blocked

fun stdout_of :: "event list \<Rightarrow> string" where
  "stdout_of [] = []"
| "stdout_of (Printf s # evs) = s @ stdout_of evs"
| "stdout_of (Forked prog i limit out status # evs) = stdout_of evs"

definition run_cleanup :: "platform \<Rightarrow> nat \<Rightarrow> tk_testcase \<Rightarrow> event list \<times> ending" where
  "run_cleanup p i t =
     (case fini t of
        None \<Rightarrow> ([], Finished)
      | Some f \<Rightarrow>
         (case fini_child p f of
            (out, None) \<Rightarrow> ([Forked Cleanup i (TK_TIME_LIMIT_SEC p) out None], Blocked)
          | (out, Some status) \<Rightarrow>
              ([Forked Cleanup i (TK_TIME_LIMIT_SEC p) out (Some status)], Finished)))"

text \<open>
  The verbose dump of a failed test: \<^verbatim>\<open>printf(pcol("%s", 90), buf)\<close>, then a newline
  if \<^verbatim>\<open>buf\<close> is empty or does not end with one.
\<close>

definition dump_output :: "platform \<Rightarrow> string \<Rightarrow> event list" where
  "dump_output p buf =
     Printf (printf_s (pcol p ''%s'' 90) buf) #
     (if buf = [] \<or> last buf \<noteq> NL then [Printf [NL]] else [])"

text \<open>One iteration of the loop of \<^verbatim>\<open>run_all_testcases\<close>, for \<^verbatim>\<open>tests[i]\<close>.\<close>

definition loop_body ::
  "platform \<Rightarrow> bool \<Rightarrow> nat \<Rightarrow> tk_testcase \<Rightarrow> nat \<Rightarrow> event list \<times> ending \<times> nat" where
  "loop_body p verbose i t passed =
     (case tk_assert (mmap_ok p i) ''mmap() should succeed'' of
        Some e \<Rightarrow> ([], Died e, passed)
      | None \<Rightarrow>
         (case test_child p t of
            (o0, buf, None) \<Rightarrow>
              ([Forked Testcase i (TK_TIME_LIMIT_SEC p) o0 None], Blocked, passed)
          | (o0, buf, Some status) \<Rightarrow>
              (case check_results p t status of
                 (succ, line) \<Rightarrow>
                   (case run_cleanup p i t of
                      (evs, e) \<Rightarrow>
                        ([Forked Testcase i (TK_TIME_LIMIT_SEC p) o0 (Some status),
                          Printf line]
                         @ (if succ then [] else if verbose then dump_output p buf else [])
                         @ evs,
                         e,
                         if succ then passed + 1 else passed)))))"

fun testcases_loop ::
  "platform \<Rightarrow> bool \<Rightarrow> nat \<Rightarrow> tk_testcase list \<Rightarrow> nat \<Rightarrow> event list \<times> ending \<times> nat" where
  "testcases_loop p verbose i [] passed = ([], Finished, passed)"
| "testcases_loop p verbose i (t # ts) passed =
     (case loop_body p verbose i t passed of
        (evs, Finished, passed') \<Rightarrow>
          (case testcases_loop p verbose (i + 1) ts passed' of
             (evs', r) \<Rightarrow> (evs @ evs', r))
      | (evs, e, passed') \<Rightarrow> (evs, e, passed'))"

text \<open>
  \<^verbatim>\<open>run_all_testcases\<close>: the trace, how the run ends, and the registry afterwards
  (the argument vectors are freed and their pointers cleared).
\<close>

definition run_all_testcases ::
  "platform \<Rightarrow> tk_testcase list \<Rightarrow> event list \<times> ending \<times> tk_testcase list" where
  "run_all_testcases p tests =
     (if length tests = 0 then ([], Finished, tests)
      else
       (let verbose = (getenv p TK_VERBOSE \<noteq> None) in
        case testcases_loop p verbose 0 tests 0 of
          (evs, Finished, passed) \<Rightarrow>
            ([Printf ([NL] @ ''TestKit'' @ [NL])] @ evs @
             [Printf (''- '' @ dec passed @ ''/'' @ dec (length tests) @
                      '' test cases passed.'' @ [NL])],
             Finished,
             map (\<lambda>t. if argv t \<noteq> None then t\<lparr>argv := None\<rparr> else t) tests)
        | (evs, e, passed) \<Rightarrow> ([Printf ([NL] @ ''TestKit'' @ [NL])] @ evs, e, tests)))"

subsection \<open>The lines of the report\<close>

text \<open>
  The console format: \<^verbatim>\<open>- [PASS] <name> (<location>)\<close> for a test that passed and
  \<^verbatim>\<open>- [FAIL] <name> (<location>) - <reason>\<close> for one that failed.
\<close>

definition pass_line :: "platform \<Rightarrow> tk_testcase \<Rightarrow> string" where
  "pass_line p t =
     ''- ['' @ pcol p ''PASS'' 32 @ ''] '' @ name t @ '' ('' @ loc t @ '')'' @ [NL]"

definition fail_line :: "platform \<Rightarrow> tk_testcase \<Rightarrow> string \<Rightarrow> string" where
  "fail_line p t reason =
     ''- ['' @ pcol p ''FAIL'' 31 @ ''] '' @ name t @ '' ('' @ loc t @ '')'' @
     '' - '' @ reason @ [NL]"

definition summary_line :: "nat \<Rightarrow> nat \<Rightarrow> string" where
  "summary_line passed n =
     ''- '' @ dec passed @ ''/'' @ dec n @ '' test cases passed.'' @ [NL]"

text \<open>
  What the driver reports for one test, read off the status of the test's child: whether
  the test passes, and the text printed for it (the verdict line, and after a FAIL line
  the dump when verbose).
\<close>

definition passes :: "platform \<Rightarrow> tk_testcase \<Rightarrow> bool" where
  "passes p t =
     (case test_child p t of
        (o0, buf, Some st) \<Rightarrow> WIFEXITED st
      | (o0, buf, None) \<Rightarrow> False)"

definition report :: "platform \<Rightarrow> bool \<Rightarrow> tk_testcase \<Rightarrow> string" where
  "report p verbose t =
     (case test_child p t of
        (o0, buf, Some st) \<Rightarrow>
          if WIFEXITED st then pass_line p t
          else fail_line p t (fail_msg p st) @
               (if verbose then stdout_of (dump_output p buf) else [])
      | (o0, buf, None) \<Rightarrow> [])"

subsection \<open>Conditions on the environment and on a test's callbacks\<close>

text \<open>TestKit is enabled: one of the two activation variables is set.\<close>

definition active :: "platform \<Rightarrow> bool" where
  "active p = (getenv p TK_RUN \<noteq> None \<or> getenv p TK_VERBOSE \<noteq> None)"

text \<open>
  \<^verbatim>\<open>init\<close> is absent, or it returns after writing \<open>o0\<close>: the test body is then
  reached.
\<close>

definition init_done :: "tk_testcase \<Rightarrow> string \<Rightarrow> bool" where
  "init_done t o0 =
     (case init t of None \<Rightarrow> o0 = [] | Some (out, e) \<Rightarrow> out = o0 \<and> e = Return ())"

subsection \<open>A small test program\<close>

text \<open>
  A host program whose \<^verbatim>\<open>main\<close> prints a usage line and returns 1, run from a shell
  that exports \<^verbatim>\<open>_\<close>, with \<^verbatim>\<open>TK_RUN\<close> set, output not on a terminal, and room for
  two test cases.
\<close>

definition ex_env :: "string \<Rightarrow> string option" where
  "ex_env k = (if k = ''TK_RUN'' then Some ''1''
               else if k = ''_'' then Some ''./a.out'' else None)"

definition ex_env_verbose :: "string \<Rightarrow> string option" where
  "ex_env_verbose k = (if k = ''TK_VERBOSE'' then Some ''1'' else ex_env k)"

definition ex_env_off :: "string \<Rightarrow> string option" where
  "ex_env_off k = (if k = ''_'' then Some ''./a.out'' else None)"

definition ex_env_no_path :: "string \<Rightarrow> string option" where
  "ex_env_no_path k = (if k = ''TK_RUN'' then Some ''1'' else None)"

definition ex_strsignal :: "int \<Rightarrow> string" where
  "ex_strsignal sig = (if sig = 9 then ''Killed'' else ''Unknown signal'')"

definition ex_main :: "int \<Rightarrow> string option list option \<Rightarrow> int proc" where
  "ex_main n a = (''usage: a.out FILE'' @ [NL], Return 1)"

definition ex_coredump :: "int \<Rightarrow> bool" where
  "ex_coredump sig = (sig = SIGABRT \<or> sig = SIGSEGV)"

definition ex_mmap :: "nat \<Rightarrow> bool" where
  "ex_mmap i = True"

definition ex_platform :: platform where
  "ex_platform =
     \<lparr>TK_MAX_TESTS = 2, TK_TIME_LIMIT_SEC = 1, getenv = ex_env, isatty = False,
      strsignal = ex_strsignal, host_main = ex_main, coredump = ex_coredump,
      fmemopen_ok = True, mmap_ok = ex_mmap\<rparr>"

definition ex_verbose :: platform where
  "ex_verbose = ex_platform\<lparr>getenv := ex_env_verbose\<rparr>"

definition ex_terminal :: platform where
  "ex_terminal = ex_platform\<lparr>getenv := ex_env_verbose, isatty := True\<rparr>"

definition ex_off :: platform where
  "ex_off = ex_platform\<lparr>getenv := ex_env_off\<rparr>"

definition ex_no_path :: platform where
  "ex_no_path = ex_platform\<lparr>getenv := ex_env_no_path\<rparr>"

text \<open>A unit test that passes, and one whose assertion \<^verbatim>\<open>1 == 2\<close> fails.\<close>

definition ex_pass :: tk_testcase where
  "ex_pass =
     \<lparr>name = ''sum'', loc = ''t.c:3'', init = None, fini = None,
      utest = Some ([], Return ()), stest = None, argc = 0, argv = None\<rparr>"

definition ex_assert :: tk_testcase where
  "ex_assert =
     \<lparr>name = ''eq'', loc = ''t.c:7'', init = None, fini = Some ([], Kill SIGSEGV),
      utest = Some (''1 == 2'' @ [NL], Kill SIGABRT), stest = None, argc = 0,
      argv = None\<rparr>"

text \<open>A system test that runs \<^verbatim>\<open>main\<close> with one argument and accepts any result.\<close>

definition ex_inspect :: "tk_result \<Rightarrow> unit proc" where
  "ex_inspect r = ([], Return ())"

definition ex_system :: tk_testcase where
  "ex_system =
     \<lparr>name = ''help'', loc = ''t.c:11'', init = None, fini = None, utest = None,
      stest = Some ex_inspect, argc = 1, argv = Some [Some ''--help'']\<rparr>"

text \<open>The record as \<^verbatim>\<open>tk_add_test\<close> stores it, with the full argument vector.\<close>

definition ex_system_stored :: tk_testcase where
  "ex_system_stored =
     ex_system\<lparr>argc := 2, argv := Some [Some ''./a.out'', Some ''--help'', None]\<rparr>"

text \<open>A malformed record: an argument list, but no system test callback.\<close>

definition ex_malformed :: tk_testcase where
  "ex_malformed =
     \<lparr>name = ''bad'', loc = ''t.c:15'', init = None, fini = None,
      utest = Some ([], Return ()), stest = None, argc = 1,
      argv = Some [Some ''--help'']\<rparr>"

section \<open>Properties\<close>

subsection \<open>Wait statuses\<close>

lemma and_0x7f_exit: "W_EXITCODE (r AND 0xff) 0 AND 0x7f = 0"
proof -
  have "(127::int) = mask 7" by (simp add: mask_eq_exp_minus_1)
  then show ?thesis
    by (simp add: W_EXITCODE_def bit_eq_iff bit_simps)
qed

lemma WIFEXITED_exit: "WIFEXITED (W_EXITCODE (r AND 0xff) 0)"
  by (simp add: WIFEXITED_def WTERMSIG_def and_0x7f_exit)

lemma WEXITSTATUS_exit: "WEXITSTATUS (W_EXITCODE (r AND 0xff) 0) = r AND 0xff"
proof -
  have m: "(255::int) = mask 8" by (simp add: mask_eq_exp_minus_1)
  have n: "(65280::int) = push_bit 8 (mask 8)"
    by (simp add: mask_eq_exp_minus_1 push_bit_eq_mult)
  show ?thesis unfolding WEXITSTATUS_def W_EXITCODE_def m n
    by (auto simp add: bit_eq_iff bit_simps)
qed

lemma sig_and_0x7f: "0 \<le> sig \<Longrightarrow> sig < 128 \<Longrightarrow> (sig::int) AND 0x7f = sig"
proof -
  assume a: "0 \<le> sig" "sig < 128"
  have "(127::int) = mask 7" by (simp add: mask_eq_exp_minus_1)
  then have "sig AND 0x7f = take_bit 7 sig" by (simp add: take_bit_eq_mask)
  also have "\<dots> = sig" using a by (simp add: take_bit_int_eq_self)
  finally show ?thesis .
qed

lemma core_and_0x7f: "0 \<le> sig \<Longrightarrow> sig < 128 \<Longrightarrow> ((sig::int) OR 0x80) AND 0x7f = sig"
  by (simp add: bit.conj_disj_distrib2 sig_and_0x7f)

text \<open>A child killed by signal \<open>sig\<close> is seen as such by the parent, core dump or not.\<close>

lemma wait_status_Kill:
  assumes "0 < sig" "sig < 127" "wait_status p (Kill sig) = Some st"
  shows "\<not> WIFEXITED st \<and> WIFSIGNALED st \<and> WTERMSIG st = sig"
proof -
  have "st AND 0x7f = sig"
    using assms by (auto simp: sig_and_0x7f core_and_0x7f split: if_splits)
  then show ?thesis using assms(1,2)
    by (simp add: WIFEXITED_def WIFSIGNALED_def WTERMSIG_def signed_char_def)
qed

lemma pcol_plain: "\<not> isatty p \<Longrightarrow> length s \<le> 63 \<Longrightarrow> pcol p s c = s"
  by (simp add: pcol_def)

lemma check_results_exited:
  "WIFEXITED status \<Longrightarrow> check_results p t status = (True, pass_line p t)"
  by (simp add: check_results_def pass_line_def)

lemma check_results_failed:
  "\<not> WIFEXITED status \<Longrightarrow>
   check_results p t status = (False, fail_line p t (fail_msg p status))"
  by (simp add: check_results_def fail_line_def)

subsection \<open>The child and one iteration of the driver\<close>

lemma stdout_of_append: "stdout_of (xs @ ys) = stdout_of xs @ stdout_of ys"
  by (induction xs rule: stdout_of.induct) simp_all

lemma stdout_of_run_cleanup: "stdout_of (fst (run_cleanup p i t)) = []"
  by (simp add: run_cleanup_def split: option.splits prod.splits)

lemma run_testcase_unit:
  assumes "stest t = None" "utest t = Some (out, e)" "init_done t o0" "fmemopen_ok p"
  shows "run_testcase p t = (o0, out, map_run (\<lambda>_. 0) e)"
  using assms
  by (auto simp: run_testcase_def init_done_def tk_assert_def split: option.splits)

lemma run_testcase_system:
  assumes "stest t = Some st" "host_main p (argc t) (argv t) = (o1, Return r)"
    "st \<lparr>exit_status = r, output_buf = o1\<rparr> = (o2, e)" "init_done t o0" "fmemopen_ok p"
  shows "run_testcase p t = (o0, o1 @ o2, map_run (\<lambda>_. r) e)"
  using assms
  by (auto simp: run_testcase_def init_done_def tk_assert_def split: option.splits)

lemma loop_body_status:
  assumes "mmap_ok p i" "test_child p t = (o0, buf, Some st)"
  shows "loop_body p v i t n =
    ([Forked Testcase i (TK_TIME_LIMIT_SEC p) o0 (Some st),
      Printf (snd (check_results p t st))]
     @ (if fst (check_results p t st) then [] else if v then dump_output p buf else [])
     @ fst (run_cleanup p i t),
     snd (run_cleanup p i t),
     if fst (check_results p t st) then n + 1 else n)"
  using assms by (simp add: loop_body_def tk_assert_def split: prod.splits)

lemma map_run_Return: "map_run f e = Return r \<longleftrightarrow> (\<exists>x. e = Return x \<and> r = f x)"
  by (cases e) auto

lemma fold_update_length: "length (fold (\<lambda>i v. v[i := f i]) is v) = length v"
  by (induction "is" arbitrary: v) simp_all

lemma fold_update_nth:
  "j < length v \<Longrightarrow>
   fold (\<lambda>i v. v[i := f i]) [m..<n] v ! j = (if m \<le> j \<and> j < n then f j else v ! j)"
proof (induction n)
  case 0
  then show ?case by simp
next
  case (Suc n)
  then show ?case
    by (cases "m \<le> n") (auto simp: fold_update_length nth_list_update less_Suc_eq)
qed

lemma copy_args:
  assumes "length v = Suc (Suc (length a))" "v ! 0 = x" "v ! Suc (length a) = None"
  shows "fold (\<lambda>i v. v[i := a ! (i - 1)]) [1..<Suc (length a)] v = x # a @ [None]"
proof (rule nth_equalityI)
  show "length (fold (\<lambda>i v. v[i := a ! (i - 1)]) [1..<Suc (length a)] v) =
        length (x # a @ [None])"
    using assms(1) by (simp add: fold_update_length)
next
  fix j
  assume "j < length (fold (\<lambda>i v. v[i := a ! (i - 1)]) [1..<Suc (length a)] v)"
  then have j: "j < length v" by (simp add: fold_update_length)
  have "fold (\<lambda>i v. v[i := a ! (i - 1)]) [1..<Suc (length a)] v ! j =
        (if 1 \<le> j \<and> j < Suc (length a) then a ! (j - 1) else v ! j)"
    using j by (rule fold_update_nth)
  moreover have "(if 1 \<le> j \<and> j < Suc (length a) then a ! (j - 1) else v ! j) =
        (x # a @ [None]) ! j"
    using j assms by (cases j) (auto simp: nth_append less_Suc_eq)
  ultimately show "fold (\<lambda>i v. v[i := a ! (i - 1)]) [1..<Suc (length a)] v ! j =
        (x # a @ [None]) ! j"
    by (rule trans)
qed

lemma expand_argv_system:
  assumes "argv t = Some a" "stest t \<noteq> None" "argc t = int (length a)"
    "int (length a) < INT_MAX - 1" "getenv p ''_'' = Some path"
  shows "expand_argv p t =
    Inr (t\<lparr>argc := int (length a) + 1, argv := Some (Some path # a @ [None])\<rparr>)"
proof -
  let ?n = "Suc (length a)"
  let ?v = "(replicate (Suc (length a + 1)) None)[?n := None, 0 := Some path]"
  have nn: "nat (int (length a) + 1) = ?n" by simp
  have v: "length ?v = Suc ?n" "?v ! 0 = Some path" "?v ! ?n = None"
    by (simp_all add: nth_list_update del: replicate.simps)
  have f: "fold (\<lambda>i v. v[i := a ! (i - 1)]) [1..<?n] ?v = Some path # a @ [None]"
    using v by (rule copy_args)
  show ?thesis
    using assms v(2) f
    by (simp add: expand_argv_def Let_def tk_assert_def nn
             del: replicate.simps upt_Suc list_update.simps One_nat_def)
qed

lemma run_testcase_unit_return:
  assumes "stest t = None"
  shows "run_testcase p t = (a, b, Return r) \<Longrightarrow> r = 0"
  using assms
  by (auto simp: run_testcase_def tk_assert_def map_run_Return split: option.splits prod.splits run.splits if_splits)

lemma failed_child_ending:
  assumes "test_child p t = (a, b, Some st)" "\<not> fst (check_results p t st)"
  shows "\<not> WIFEXITED st \<and> ((\<exists>sig. snd (snd (run_testcase p t)) = Kill sig) \<or> snd (snd (run_testcase p t)) = Hang)"
proof -
  have 1: "\<not> WIFEXITED st" using assms(2) by (auto simp: check_results_def split: if_splits)
  obtain e where e: "run_testcase p t = (a, b, e)" "wait_status p e = Some st"
    using assms(1) by (auto simp: test_child_def split: prod.splits)
  have "(\<exists>sig. e = Kill sig) \<or> e = Hang"
    using e(2) 1 by (cases e) (auto simp: WIFEXITED_exit)
  with 1 e show ?thesis by simp
qed

subsection \<open>The reason of a failure\<close>

text \<open>
  Claim C1. When the child did not exit normally, \<^verbatim>\<open>check_results\<close> reports FAIL,
  and the reason on the line depends on the wait status alone: \<^verbatim>\<open>Timeout\<close> for a
  child killed by \<^verbatim>\<open>SIGALRM\<close>, \<^verbatim>\<open>Assertion fail\<close> for \<^verbatim>\<open>SIGABRT\<close>,
  \<^verbatim>\<open>Segmentation fault\<close> for \<^verbatim>\<open>SIGSEGV\<close>, the description \<^verbatim>\<open>strsignal\<close> gives
  for any other signal, and \<^verbatim>\<open>unknown error\<close> for a status that is neither a normal
  exit nor a death by signal. Each reason goes through \<^verbatim>\<open>pcol\<close>, which leaves it as
  it is when the output is not a terminal.
\<close>

theorem check_results_fail_reason:
  assumes "\<not> WIFEXITED status"
  shows "fst (check_results p t status) = False \<and>
    (WIFSIGNALED status \<and> WTERMSIG status = SIGALRM \<longrightarrow>
       snd (check_results p t status) = fail_line p t (pcol p ''Timeout'' 33)) \<and>
    (WIFSIGNALED status \<and> WTERMSIG status = SIGABRT \<longrightarrow>
       snd (check_results p t status) = fail_line p t (pcol p ''Assertion fail'' 35)) \<and>
    (WIFSIGNALED status \<and> WTERMSIG status = SIGSEGV \<longrightarrow>
       snd (check_results p t status) = fail_line p t (pcol p ''Segmentation fault'' 36)) \<and>
    (WIFSIGNALED status \<and> WTERMSIG status \<noteq> SIGALRM \<and> WTERMSIG status \<noteq> SIGABRT \<and>
     WTERMSIG status \<noteq> SIGSEGV \<longrightarrow>
       snd (check_results p t status) =
         fail_line p t (pcol p (strsignal p (WTERMSIG status)) 31)) \<and>
    (\<not> WIFSIGNALED status \<longrightarrow>
       snd (check_results p t status) = fail_line p t (pcol p ''unknown error'' 31)) \<and>
    (\<not> isatty p \<longrightarrow>
       pcol p ''Timeout'' 33 = ''Timeout'' \<and>
       pcol p ''Assertion fail'' 35 = ''Assertion fail'' \<and>
       pcol p ''Segmentation fault'' 36 = ''Segmentation fault'' \<and>
       pcol p ''unknown error'' 31 = ''unknown error'' \<and>
       (length (strsignal p (WTERMSIG status)) \<le> 63 \<longrightarrow>
          pcol p (strsignal p (WTERMSIG status)) 31 = strsignal p (WTERMSIG status)))"
proof -
  have line: "snd (check_results p t status) = fail_line p t (fail_msg p status)"
    and verdict: "fst (check_results p t status) = False"
    using assms by (simp_all add: check_results_failed)
  have distinct: "SIGALRM \<noteq> SIGABRT" "SIGALRM \<noteq> SIGSEGV" "SIGABRT \<noteq> SIGSEGV"
    by (simp_all add: SIGALRM_def SIGABRT_def SIGSEGV_def)
  show ?thesis
    using distinct by (simp add: line verdict fail_msg_def Let_def pcol_plain)
qed

theorem check_results_fail_reason_witness:
  "\<not> WIFEXITED 14 \<and> \<not> WIFEXITED 134 \<and> \<not> WIFEXITED 139 \<and> \<not> WIFEXITED 9 \<and>
   \<not> WIFEXITED 127 \<and>
   check_results ex_platform ex_assert 14 =
     (False, ''- [FAIL] eq (t.c:7) - Timeout'' @ [NL]) \<and>
   check_results ex_platform ex_assert 134 =
     (False, ''- [FAIL] eq (t.c:7) - Assertion fail'' @ [NL]) \<and>
   check_results ex_platform ex_assert 139 =
     (False, ''- [FAIL] eq (t.c:7) - Segmentation fault'' @ [NL]) \<and>
   check_results ex_platform ex_assert 9 =
     (False, ''- [FAIL] eq (t.c:7) - Killed'' @ [NL]) \<and>
   check_results ex_platform ex_assert 127 =
     (False, ''- [FAIL] eq (t.c:7) - unknown error'' @ [NL])"
proof -
  have e: "\<not> WIFEXITED 14" "\<not> WIFEXITED 134" "\<not> WIFEXITED 139" "\<not> WIFEXITED 9"
    "\<not> WIFEXITED 127"
    by (simp_all add: WIFEXITED_def WTERMSIG_def)
  have s: "WIFSIGNALED 14" "WIFSIGNALED 134" "WIFSIGNALED 139" "WIFSIGNALED 9"
    "\<not> WIFSIGNALED 127"
    by (simp_all add: WIFSIGNALED_def signed_char_def)
  have w: "WTERMSIG 14 = SIGALRM" "WTERMSIG 134 = SIGABRT" "WTERMSIG 139 = SIGSEGV"
    "WTERMSIG 9 = 9"
    by (simp_all add: WTERMSIG_def SIGALRM_def SIGABRT_def SIGSEGV_def)
  have n: "\<not> isatty ex_platform" "strsignal ex_platform 9 = ''Killed''"
    "name ex_assert = ''eq''" "loc ex_assert = ''t.c:7''"
    by (simp_all add: ex_platform_def ex_strsignal_def ex_assert_def)
  have f: "fail_line ex_platform ex_assert r = ''- [FAIL] eq (t.c:7) - '' @ r @ [NL]" for r
    by (simp add: fail_line_def n pcol_plain)
  show ?thesis
    using check_results_fail_reason [OF e(1), of ex_platform ex_assert]
      check_results_fail_reason [OF e(2), of ex_platform ex_assert]
      check_results_fail_reason [OF e(3), of ex_platform ex_assert]
      check_results_fail_reason [OF e(4), of ex_platform ex_assert]
      check_results_fail_reason [OF e(5), of ex_platform ex_assert]
    by (simp add: e s w n f prod_eq_iff SIGALRM_def SIGABRT_def SIGSEGV_def)
qed

subsection \<open>Registration without activation\<close>

text \<open>
  Claim C4. When neither \<^verbatim>\<open>TK_RUN\<close> nor \<^verbatim>\<open>TK_VERBOSE\<close> is in the environment,
  \<^verbatim>\<open>tk_add_test\<close> returns at once: the registry is as it was, whatever the record,
  and no assertion is evaluated.
\<close>

theorem tk_add_test_inactive:
  assumes "getenv p TK_RUN = None" and "getenv p TK_VERBOSE = None"
  shows "tk_add_test p tests t = Inr tests"
  using assms by (simp add: tk_add_test_def)

theorem tk_add_test_inactive_witness:
  "getenv ex_off TK_RUN = None \<and> getenv ex_off TK_VERBOSE = None \<and>
   tk_add_test ex_off [ex_pass] ex_malformed = Inr [ex_pass]"
proof -
  have h: "getenv ex_off TK_RUN = None" "getenv ex_off TK_VERBOSE = None"
    by (simp_all add: ex_off_def ex_platform_def ex_env_off_def TK_RUN_def TK_VERBOSE_def)
  show ?thesis
    using h tk_add_test_inactive [OF h, of "[ex_pass]" ex_malformed] by simp
qed

subsection \<open>Facts about the example\<close>

lemma ex_facts:
  "fmemopen_ok ex_platform" "mmap_ok ex_platform i" "TK_TIME_LIMIT_SEC ex_platform = 1"
  "\<not> isatty ex_platform" "coredump ex_platform SIGABRT" "coredump ex_platform SIGSEGV"
  "fmemopen_ok ex_verbose" "mmap_ok ex_verbose i" "TK_TIME_LIMIT_SEC ex_verbose = 1"
  "\<not> isatty ex_verbose" "coredump ex_verbose SIGABRT" "coredump ex_verbose SIGSEGV"
  by (simp_all add: ex_platform_def ex_verbose_def ex_mmap_def ex_coredump_def)

lemma ex_lines:
  "pass_line ex_platform ex_pass = ''- [PASS] sum (t.c:3)'' @ [NL]"
  "pass_line ex_verbose ex_pass = ''- [PASS] sum (t.c:3)'' @ [NL]"
  "pass_line ex_platform ex_system_stored = ''- [PASS] help (t.c:11)'' @ [NL]"
  "fail_line ex_platform ex_assert r = ''- [FAIL] eq (t.c:7) - '' @ r @ [NL]"
  "fail_line ex_verbose ex_assert r = ''- [FAIL] eq (t.c:7) - '' @ r @ [NL]"
  by (simp_all add: pass_line_def fail_line_def pcol_plain ex_facts ex_pass_def ex_assert_def
        ex_system_stored_def ex_system_def)

subsection \<open>The verdict on a unit test\<close>

text \<open>
  Claim C8. Take a unit test (no \<^verbatim>\<open>stest\<close> callback) whose body is reached. If the
  body returns, the child exits with status 0 and the driver prints the PASS line and
  counts the test. If the body ends in the assertion-failure primitive, that is, the
  child is killed by \<^verbatim>\<open>SIGABRT\<close>, the driver prints the FAIL line with the reason
  \<^verbatim>\<open>Assertion fail\<close> (followed by the captured output in verbose mode) and does not
  count the test.
\<close>

theorem unit_test_verdict:
  assumes "stest t = None" "utest t = Some (out, e)" "init_done t o0"
    "fmemopen_ok p" "mmap_ok p i"
  shows "(e = Return () \<longrightarrow>
            loop_body p v i t n =
              ([Forked Testcase i (TK_TIME_LIMIT_SEC p) o0 (Some 0), Printf (pass_line p t)]
               @ fst (run_cleanup p i t),
               snd (run_cleanup p i t), n + 1)) \<and>
         (e = Kill SIGABRT \<longrightarrow>
            loop_body p v i t n =
              ([Forked Testcase i (TK_TIME_LIMIT_SEC p) o0 (wait_status p (Kill SIGABRT)),
                Printf (fail_line p t (pcol p ''Assertion fail'' 35))]
               @ (if v then dump_output p out else [])
               @ fst (run_cleanup p i t),
               snd (run_cleanup p i t), n))"
proof (intro conjI impI)
  assume e: "e = Return ()"
  have "test_child p t = (o0, out, Some 0)"
    using run_testcase_unit [OF assms(1-4)] e by (simp add: test_child_def W_EXITCODE_def)
  moreover have "WIFEXITED 0" by (simp add: WIFEXITED_def WTERMSIG_def)
  ultimately show "loop_body p v i t n =
      ([Forked Testcase i (TK_TIME_LIMIT_SEC p) o0 (Some 0), Printf (pass_line p t)]
       @ fst (run_cleanup p i t), snd (run_cleanup p i t), n + 1)"
    using assms(5) by (simp add: loop_body_status check_results_exited)
next
  assume e: "e = Kill SIGABRT"
  obtain st where st: "wait_status p (Kill SIGABRT) = Some st" by simp
  have c: "test_child p t = (o0, out, Some st)"
    using run_testcase_unit [OF assms(1-4)] e st by (simp add: test_child_def)
  have "\<not> WIFEXITED st \<and> WIFSIGNALED st \<and> WTERMSIG st = SIGABRT"
    using st by (intro wait_status_Kill [of SIGABRT p]) (simp_all add: SIGABRT_def)
  then have "check_results p t st = (False, fail_line p t (pcol p ''Assertion fail'' 35))"
    by (simp add: check_results_failed fail_msg_def SIGABRT_def SIGALRM_def)
  then show "loop_body p v i t n =
      ([Forked Testcase i (TK_TIME_LIMIT_SEC p) o0 (wait_status p (Kill SIGABRT)),
        Printf (fail_line p t (pcol p ''Assertion fail'' 35))]
       @ (if v then dump_output p out else [])
       @ fst (run_cleanup p i t), snd (run_cleanup p i t), n)"
    using assms(5) c st by (simp add: loop_body_status)
qed

theorem unit_test_verdict_witness:
  "loop_body ex_verbose True 0 ex_pass 0 =
     ([Forked Testcase 0 1 [] (Some 0), Printf (''- [PASS] sum (t.c:3)'' @ [NL])],
      Finished, 1) \<and>
   loop_body ex_verbose True 1 ex_assert 1 =
     ([Forked Testcase 1 1 [] (Some 134),
       Printf (''- [FAIL] eq (t.c:7) - Assertion fail'' @ [NL]),
       Printf (''1 == 2'' @ [NL]),
       Forked Cleanup 1 1 [] (Some 139)],
      Finished, 1)"
proof -
  have a: "stest ex_pass = None" "utest ex_pass = Some ([], Return ())"
    "init_done ex_pass []"
    by (simp_all add: ex_pass_def init_done_def)
  have b: "stest ex_assert = None" "utest ex_assert = Some (''1 == 2'' @ [NL], Kill SIGABRT)"
    "init_done ex_assert []"
    by (simp_all add: ex_assert_def init_done_def)
  show ?thesis
    using unit_test_verdict [of ex_pass "[]" "Return ()" "[]" ex_verbose 0 True 0]
      unit_test_verdict [of ex_assert "''1 == 2'' @ [NL]" "Kill SIGABRT" "[]" ex_verbose 1 True 1]
    by (simp add: a b ex_lines ex_facts pcol_plain)
       (simp add: run_cleanup_def fini_child_def dump_output_def pcol_def
          ex_pass_def ex_assert_def SIGABRT_def SIGSEGV_def ex_verbose_def
          ex_platform_def ex_coredump_def)
qed

subsection \<open>The exit status of a unit test\<close>

text \<open>
  Claim C10. For a unit test (no \<^verbatim>\<open>stest\<close> callback): if the body is reached and
  returns, \<^verbatim>\<open>run_testcase\<close> returns 0 and the child exits with status 0; whenever
  \<^verbatim>\<open>run_testcase\<close> returns at all, it returns 0, since only the system path assigns
  \<^verbatim>\<open>r\<close>; and if the test is reported FAIL, the child did not exit normally: it was
  killed by a signal, that of the alarm included.
\<close>

theorem unit_test_exit_status:
  assumes "stest t = None"
  shows "(utest t = Some (out, Return ()) \<and> init_done t o0 \<and> fmemopen_ok p \<longrightarrow>
            run_testcase p t = (o0, out, Return 0) \<and>
            test_child p t = (o0, out, Some 0) \<and>
            WIFEXITED 0 \<and> WEXITSTATUS 0 = 0) \<and>
         (\<forall>a b r. run_testcase p t = (a, b, Return r) \<longrightarrow> r = 0) \<and>
         (\<forall>a b st. test_child p t = (a, b, Some st) \<and> \<not> fst (check_results p t st) \<longrightarrow>
            \<not> WIFEXITED st \<and>
            ((\<exists>sig. snd (snd (run_testcase p t)) = Kill sig) \<or>
             snd (snd (run_testcase p t)) = Hang))"
proof (intro conjI impI allI)
  assume h: "utest t = Some (out, Return ()) \<and> init_done t o0 \<and> fmemopen_ok p"
  then show r: "run_testcase p t = (o0, out, Return 0)"
    using run_testcase_unit [OF assms, of out "Return ()" o0 p] by simp
  then show "test_child p t = (o0, out, Some 0)"
    by (simp add: test_child_def W_EXITCODE_def)
  show "WIFEXITED 0" by (simp add: WIFEXITED_def WTERMSIG_def)
  show "WEXITSTATUS 0 = 0" by (simp add: WEXITSTATUS_def)
next
  fix a b r
  assume "run_testcase p t = (a, b, Return r)"
  then show "r = 0" using assms by (rule run_testcase_unit_return [rotated])
next
  fix a b st
  assume "test_child p t = (a, b, Some st) \<and> \<not> fst (check_results p t st)"
  then have f: "\<not> WIFEXITED st \<and>
      ((\<exists>sig. snd (snd (run_testcase p t)) = Kill sig) \<or> snd (snd (run_testcase p t)) = Hang)"
    using failed_child_ending [of p t a b st] by simp
  from f show "\<not> WIFEXITED st" by simp
  from f show "(\<exists>sig. snd (snd (run_testcase p t)) = Kill sig) \<or>
      snd (snd (run_testcase p t)) = Hang" by simp
qed

theorem unit_test_exit_status_witness:
  "stest ex_pass = None \<and> utest ex_pass = Some ([], Return ()) \<and> init_done ex_pass [] \<and>
   fmemopen_ok ex_platform \<and>
   run_testcase ex_platform ex_pass = ([], [], Return 0) \<and>
   test_child ex_platform ex_pass = ([], [], Some 0) \<and>
   stest ex_assert = None \<and>
   test_child ex_platform ex_assert = ([], ''1 == 2'' @ [NL], Some 134) \<and>
   \<not> fst (check_results ex_platform ex_assert 134) \<and>
   \<not> WIFEXITED 134 \<and>
   snd (snd (run_testcase ex_platform ex_assert)) = Kill SIGABRT"
proof -
  have a: "stest ex_pass = None" "utest ex_pass = Some ([], Return ())"
    "init_done ex_pass []" "stest ex_assert = None"
    by (simp_all add: ex_pass_def ex_assert_def init_done_def)
  have r: "run_testcase ex_platform ex_assert = ([], ''1 == 2'' @ [NL], Kill SIGABRT)"
    using run_testcase_unit [of ex_assert "''1 == 2'' @ [NL]" "Kill SIGABRT" "[]" ex_platform]
    by (simp add: ex_assert_def init_done_def ex_facts)
  then have c: "test_child ex_platform ex_assert = ([], ''1 == 2'' @ [NL], Some 134)"
    by (simp add: test_child_def ex_facts) (simp add: SIGABRT_def)
  have f: "\<not> fst (check_results ex_platform ex_assert 134)"
    by (simp add: check_results_def WIFEXITED_def WTERMSIG_def)
  show ?thesis
    using unit_test_exit_status [OF a(1), of "[]" "[]" ex_platform]
      unit_test_exit_status [OF a(4), of "[]" "[]" ex_platform] a c f r
    by (simp add: ex_facts)
qed

subsection \<open>A system test whose \<^verbatim>\<open>main\<close> returns a non-zero code\<close>

lemma ex_pass_loop_body:
  "loop_body ex_platform v i ex_pass n =
     ([Forked Testcase i 1 [] (Some 0), Printf (''- [PASS] sum (t.c:3)'' @ [NL])],
      Finished, n + 1)"
proof -
  have "run_testcase ex_platform ex_pass = ([], [], Return 0)"
    using run_testcase_unit [of ex_pass "[]" "Return ()" "[]" ex_platform]
    by (simp add: ex_pass_def init_done_def ex_facts)
  then have c: "test_child ex_platform ex_pass = ([], [], Some 0)"
    by (simp add: test_child_def W_EXITCODE_def)
  have "WIFEXITED 0" by (simp add: WIFEXITED_def WTERMSIG_def)
  then show ?thesis
    using loop_body_status [of ex_platform i ex_pass "[]" "[]" 0 v n] c
    by (simp add: check_results_exited ex_lines ex_facts run_cleanup_def)
       (simp add: ex_pass_def)
qed

text \<open>
  Claim C2 says that a system test whose \<^verbatim>\<open>main\<close> returns a non-zero code is
  reported as a failure. It is not: in the example \<^verbatim>\<open>main\<close> returns 1, the child
  exits normally with exit code 1, and the driver prints the PASS line and counts the test
  in the summary.
\<close>

theorem system_test_nonzero_exit_counterexample:
  "tk_add_test ex_platform [] ex_system = Inr [ex_system_stored] \<and>
   host_main ex_platform (argc ex_system_stored) (argv ex_system_stored) =
     (''usage: a.out FILE'' @ [NL], Return 1) \<and>
   test_child ex_platform ex_system_stored = ([], ''usage: a.out FILE'' @ [NL], Some 256) \<and>
   WIFEXITED 256 \<and> WEXITSTATUS 256 = 1 \<and>
   run_all_testcases ex_platform [ex_system_stored] =
     ([Printf ([NL] @ ''TestKit'' @ [NL]),
       Forked Testcase 0 1 [] (Some 256),
       Printf (''- [PASS] help (t.c:11)'' @ [NL]),
       Printf (''- 1/1 test cases passed.'' @ [NL])],
      Finished, [ex_system_stored\<lparr>argv := None\<rparr>])"
proof -
  have "tk_add_test ex_platform [] ex_system = Inr [ex_system_stored]"
    using expand_argv_system [of ex_system "[Some ''--help'']" ex_platform "''./a.out''"]
    by (simp add: tk_add_test_def ex_system_stored_def ex_system_def ex_platform_def
          ex_env_def TK_RUN_def tk_assert_def INT_MAX_def)
  moreover have "host_main ex_platform (argc ex_system_stored) (argv ex_system_stored) =
     (''usage: a.out FILE'' @ [NL], Return 1)"
    by (simp add: ex_platform_def ex_main_def)
  moreover have c: "test_child ex_platform ex_system_stored =
      ([], ''usage: a.out FILE'' @ [NL], Some 256)"
    by (simp add: test_child_def run_testcase_def tk_assert_def ex_system_stored_def
          ex_system_def ex_platform_def ex_main_def ex_inspect_def W_EXITCODE_def)
  moreover have w: "WIFEXITED 256" "WEXITSTATUS 256 = 1"
    by (simp_all add: WIFEXITED_def WTERMSIG_def WEXITSTATUS_def)
  moreover have "run_all_testcases ex_platform [ex_system_stored] =
     ([Printf ([NL] @ ''TestKit'' @ [NL]),
       Forked Testcase 0 1 [] (Some 256),
       Printf (''- [PASS] help (t.c:11)'' @ [NL]),
       Printf (''- 1/1 test cases passed.'' @ [NL])],
      Finished, [ex_system_stored\<lparr>argv := None\<rparr>])"
  proof -
    have d: "dec (Suc 0) = ''1''" by code_simp
    have l: "loop_body ex_platform False 0 ex_system_stored 0 =
        ([Forked Testcase 0 1 [] (Some 256), Printf (''- [PASS] help (t.c:11)'' @ [NL])],
         Finished, 1)"
      using loop_body_status [of ex_platform 0 ex_system_stored "[]"
          "''usage: a.out FILE'' @ [NL]" 256 False 0] c w(1)
      by (simp add: check_results_exited ex_lines ex_facts run_cleanup_def)
         (simp add: ex_system_stored_def ex_system_def)
    have v: "getenv ex_platform TK_VERBOSE = None"
      by (simp add: ex_platform_def ex_env_def TK_VERBOSE_def)
    show ?thesis
      by (simp add: run_all_testcases_def v l d)
  qed
  ultimately show ?thesis by blast
qed

text \<open>
  Claim C2, amended. When \<^verbatim>\<open>main\<close> returns \<open>r\<close>, zero or not, and the inspection
  callback returns, the child exits normally with exit code \<open>r AND 0xff\<close>; the driver
  prints the PASS line and counts the test, since \<^verbatim>\<open>check_results\<close> looks only at
  whether the exit was normal. The code \<open>r\<close> is handed to the inspection callback. The
  loop then goes on with the remaining tests.
\<close>

theorem system_test_nonzero_exit:
  assumes "stest t = Some st"
    and "host_main p (argc t) (argv t) = (o1, Return r)"
    and "st \<lparr>exit_status = r, output_buf = o1\<rparr> = (o2, Return ())"
    and "init_done t o0" and "fmemopen_ok p" and "mmap_ok p i"
  shows "test_child p t = (o0, o1 @ o2, Some (W_EXITCODE (r AND 0xff) 0)) \<and>
         WIFEXITED (W_EXITCODE (r AND 0xff) 0) \<and>
         WEXITSTATUS (W_EXITCODE (r AND 0xff) 0) = r AND 0xff \<and>
         loop_body p v i t n =
           ([Forked Testcase i (TK_TIME_LIMIT_SEC p) o0 (Some (W_EXITCODE (r AND 0xff) 0)),
             Printf (pass_line p t)] @ fst (run_cleanup p i t),
            snd (run_cleanup p i t), n + 1) \<and>
         (snd (run_cleanup p i t) = Finished \<longrightarrow>
            testcases_loop p v i (t # ts) n =
              ([Forked Testcase i (TK_TIME_LIMIT_SEC p) o0 (Some (W_EXITCODE (r AND 0xff) 0)),
                Printf (pass_line p t)] @ fst (run_cleanup p i t) @
               fst (testcases_loop p v (i + 1) ts (n + 1)),
               snd (testcases_loop p v (i + 1) ts (n + 1))))"
proof -
  have c: "test_child p t = (o0, o1 @ o2, Some (W_EXITCODE (r AND 0xff) 0))"
    using run_testcase_system [OF assms(1-5)] by (simp add: test_child_def)
  have l: "loop_body p v i t n =
           ([Forked Testcase i (TK_TIME_LIMIT_SEC p) o0 (Some (W_EXITCODE (r AND 0xff) 0)),
             Printf (pass_line p t)] @ fst (run_cleanup p i t),
            snd (run_cleanup p i t), n + 1)"
    using loop_body_status [OF assms(6) c, of v n]
    by (simp add: check_results_exited WIFEXITED_exit)
  show ?thesis
    by (simp add: c l WIFEXITED_exit WEXITSTATUS_exit split: prod.splits)
qed

theorem system_test_nonzero_exit_witness:
  "stest ex_system_stored = Some ex_inspect \<and>
   host_main ex_platform (argc ex_system_stored) (argv ex_system_stored) =
     (''usage: a.out FILE'' @ [NL], Return 1) \<and>
   ex_inspect \<lparr>exit_status = 1, output_buf = ''usage: a.out FILE'' @ [NL]\<rparr> = ([], Return ()) \<and>
   init_done ex_system_stored [] \<and> fmemopen_ok ex_platform \<and> mmap_ok ex_platform 0 \<and>
   snd (run_cleanup ex_platform 0 ex_system_stored) = Finished \<and>
   testcases_loop ex_platform False 0 [ex_system_stored, ex_pass] 0 =
     ([Forked Testcase 0 1 [] (Some 256), Printf (''- [PASS] help (t.c:11)'' @ [NL]),
       Forked Testcase 1 1 [] (Some 0), Printf (''- [PASS] sum (t.c:3)'' @ [NL])],
      Finished, 2)"
proof -
  have a: "stest ex_system_stored = Some ex_inspect"
    "host_main ex_platform (argc ex_system_stored) (argv ex_system_stored) =
       (''usage: a.out FILE'' @ [NL], Return 1)"
    "ex_inspect \<lparr>exit_status = 1, output_buf = ''usage: a.out FILE'' @ [NL]\<rparr> = ([], Return ())"
    "init_done ex_system_stored []"
    by (simp_all add: ex_system_stored_def ex_system_def ex_platform_def ex_main_def
          ex_inspect_def init_done_def)
  have b: "run_cleanup ex_platform 0 ex_system_stored = ([], Finished)"
    by (simp add: run_cleanup_def ex_system_stored_def ex_system_def)
  have l: "testcases_loop ex_platform False 1 [ex_pass] 1 =
      ([Forked Testcase 1 1 [] (Some 0), Printf (''- [PASS] sum (t.c:3)'' @ [NL])], Finished, 2)"
    by (simp add: ex_pass_loop_body)
  have w: "W_EXITCODE 1 0 = 256" by (simp add: W_EXITCODE_def)
  show ?thesis
    using system_test_nonzero_exit [of ex_system_stored ex_inspect ex_platform
        "''usage: a.out FILE'' @ [NL]" 1 "[]" "[]" 0 False 0 "[ex_pass]"] a b l
    by (simp add: w ex_facts ex_lines)
qed

subsection \<open>Registration with activation\<close>

lemma expand_argv_plain: "argv t = None \<Longrightarrow> expand_argv p t = Inr t"
  by (simp add: expand_argv_def)

lemma expand_argv_no_path:
  assumes "argv t = Some a" "stest t \<noteq> None" "argc t = int (length a)"
    "int (length a) < INT_MAX - 1" "getenv p ''_'' = None"
  shows "expand_argv p t =
    Inl (Fatal ''TestKit requires shell put executable in environ; try run with bash'')"
  using assms
  by (simp add: expand_argv_def Let_def tk_assert_def del: replicate.simps)

lemma tk_add_test_active:
  assumes "active p"
  shows "tk_add_test p tests t =
    (case expand_argv p t of
       Inl e \<Rightarrow> Inl e
     | Inr t' \<Rightarrow>
         if length tests < TK_MAX_TESTS p then Inr (tests @ [t'])
         else Inl (Fatal ''TestKit supports up to %d test cases''))"
  using assms by (auto simp: tk_add_test_def active_def tk_assert_def split: sum.splits)

lemma tk_add_test_length:
  "length tests \<le> TK_MAX_TESTS p \<Longrightarrow> tk_add_test p tests t = Inr tests' \<Longrightarrow>
   length tests' \<le> TK_MAX_TESTS p"
  by (auto simp: tk_add_test_def tk_assert_def split: if_splits sum.splits)

lemma add_tests_length:
  "length tests \<le> TK_MAX_TESTS p \<Longrightarrow> add_tests p tests ts = Inr tests' \<Longrightarrow>
   length tests' \<le> TK_MAX_TESTS p"
proof (induction ts arbitrary: tests)
  case Nil
  then show ?case by simp
next
  case (Cons t ts)
  then show ?case
    by (auto split: sum.splits dest: tk_add_test_length)
qed

text \<open>
  Beyond \<open>INT_MAX - 2\<close> arguments one of the two sums overflows, and the program has
  no defined behaviour.
\<close>

lemma expand_argv_overflow:
  assumes "argv t = Some a" "stest t \<noteq> None" "INT_MAX - 1 \<le> argc t"
  shows "expand_argv p t = Inl Undefined"
  using assms by (auto simp: expand_argv_def Let_def tk_assert_def)

text \<open>
  Claim C6. With TestKit enabled, take a system record (it has an \<^verbatim>\<open>stest\<close>
  callback) whose \<^verbatim>\<open>argv\<close> points to \<open>n\<close> slots and whose \<^verbatim>\<open>argc\<close> is \<open>n\<close>,
  with \<open>n + 2\<close> within \<^verbatim>\<open>int\<close> (the two sums of the code do not overflow). If
  the environment holds \<^verbatim>\<open>_\<close> and the registry has room, the record is stored with
  \<^verbatim>\<open>argc = n + 1\<close> and a vector of \<open>n + 2\<close> slots: the value of \<^verbatim>\<open>_\<close>, the caller's
  \<open>n\<close> slots in order, and \<^verbatim>\<open>NULL\<close>. If the environment does not hold \<^verbatim>\<open>_\<close>,
  registration fails with the fatal assertion on \<^verbatim>\<open>argv[0]\<close>.
\<close>

theorem tk_add_test_system_argv:
  assumes "active p" and "stest t \<noteq> None" and "argv t = Some a"
    and "argc t = int (length a)" and "int (length a) < INT_MAX - 1"
  shows "(\<forall>path. getenv p ''_'' = Some path \<and> length tests < TK_MAX_TESTS p \<longrightarrow>
            tk_add_test p tests t =
              Inr (tests @ [t\<lparr>argc := int (length a) + 1,
                              argv := Some (Some path # a @ [None])\<rparr>])) \<and>
         (getenv p ''_'' = None \<longrightarrow>
            tk_add_test p tests t =
              Inl (Fatal
                ''TestKit requires shell put executable in environ; try run with bash''))"
  using assms
  by (simp add: tk_add_test_active expand_argv_system expand_argv_no_path)

theorem tk_add_test_system_argv_witness:
  "active ex_platform \<and> stest ex_system \<noteq> None \<and> argv ex_system = Some [Some ''--help''] \<and>
   argc ex_system = int (length [Some ''--help'']) \<and>
   getenv ex_platform ''_'' = Some ''./a.out'' \<and>
   tk_add_test ex_platform [ex_pass] ex_system =
     Inr [ex_pass,
          ex_system\<lparr>argc := 2, argv := Some [Some ''./a.out'', Some ''--help'', None]\<rparr>] \<and>
   active ex_no_path \<and> getenv ex_no_path ''_'' = None \<and>
   tk_add_test ex_no_path [ex_pass] ex_system =
     Inl (Fatal ''TestKit requires shell put executable in environ; try run with bash'')"
proof -
  have a: "active ex_platform" "active ex_no_path" "getenv ex_platform ''_'' = Some ''./a.out''"
    "getenv ex_no_path ''_'' = None" "TK_MAX_TESTS ex_platform = 2"
    by (simp_all add: active_def ex_platform_def ex_no_path_def ex_env_def ex_env_no_path_def
          TK_RUN_def)
  have b: "stest ex_system \<noteq> None" "argv ex_system = Some [Some ''--help'']"
    "argc ex_system = int (length [Some ''--help''])"
    by (simp_all add: ex_system_def)
  show ?thesis
    using tk_add_test_system_argv [of ex_platform ex_system "[Some ''--help'']" "[ex_pass]"]
      tk_add_test_system_argv [of ex_no_path ex_system "[Some ''--help'']" "[ex_pass]"]
    by (simp add: a b INT_MAX_def)
qed

text \<open>
  Claim C5. A registration keeps the registry within \<^verbatim>\<open>TK_MAX_TESTS\<close>, and so
  does any sequence of registrations from the empty registry. With TestKit enabled and
  the registry full, \<^verbatim>\<open>tk_add_test\<close> never succeeds: it ends in an error, which is
  a failed \<^verbatim>\<open>tk_assert\<close> unless the record's \<^verbatim>\<open>argc\<close> has already sent the copy
  of the arguments outside its arrays. A registration that succeeds with TestKit enabled
  appends the record (with its expanded argument vector) after the records already
  stored, which stay as they were and in their order.
\<close>

theorem registry_capacity:
  "(length tests \<le> TK_MAX_TESTS p \<and> tk_add_test p tests t = Inr tests' \<longrightarrow>
      length tests' \<le> TK_MAX_TESTS p) \<and>
   (add_tests p [] ts = Inr tests' \<longrightarrow> length tests' \<le> TK_MAX_TESTS p) \<and>
   (active p \<and> TK_MAX_TESTS p \<le> length tests \<longrightarrow>
      (\<exists>e. tk_add_test p tests t = Inl e) \<and>
      (expand_argv p t \<noteq> Inl Undefined \<longrightarrow>
         (\<exists>msg. tk_add_test p tests t = Inl (Fatal msg)))) \<and>
   (tk_add_test p tests t = Inr tests' \<longrightarrow>
      (if active p then \<exists>t'. expand_argv p t = Inr t' \<and> tests' = tests @ [t']
       else tests' = tests))"
proof (intro conjI impI)
  assume "length tests \<le> TK_MAX_TESTS p \<and> tk_add_test p tests t = Inr tests'"
  then show "length tests' \<le> TK_MAX_TESTS p" by (blast intro: tk_add_test_length)
next
  assume "add_tests p [] ts = Inr tests'"
  then show "length tests' \<le> TK_MAX_TESTS p"
    using add_tests_length [of "[]" p ts tests'] by simp
next
  assume h: "active p \<and> TK_MAX_TESTS p \<le> length tests"
  then show "\<exists>e. tk_add_test p tests t = Inl e"
    by (simp add: tk_add_test_active split: sum.splits)
  assume "expand_argv p t \<noteq> Inl Undefined"
  then show "\<exists>msg. tk_add_test p tests t = Inl (Fatal msg)"
    using h by (cases "expand_argv p t") (auto simp: tk_add_test_active intro: error.exhaust)
next
  assume "tk_add_test p tests t = Inr tests'"
  then show "if active p then \<exists>t'. expand_argv p t = Inr t' \<and> tests' = tests @ [t']
       else tests' = tests"
    by (auto simp: tk_add_test_def active_def tk_assert_def split: if_splits sum.splits)
qed

theorem registry_capacity_witness:
  "length [ex_pass] \<le> TK_MAX_TESTS ex_platform \<and> active ex_platform \<and>
   tk_add_test ex_platform [ex_pass] ex_assert = Inr [ex_pass, ex_assert] \<and>
   add_tests ex_platform [] [ex_pass, ex_assert] = Inr [ex_pass, ex_assert] \<and>
   length [ex_pass, ex_assert] \<le> TK_MAX_TESTS ex_platform \<and>
   TK_MAX_TESTS ex_platform \<le> length [ex_pass, ex_assert] \<and>
   expand_argv ex_platform ex_pass \<noteq> Inl Undefined \<and>
   tk_add_test ex_platform [ex_pass, ex_assert] ex_pass =
     Inl (Fatal ''TestKit supports up to %d test cases'')"
proof -
  have a: "active ex_platform" "TK_MAX_TESTS ex_platform = 2"
    by (simp_all add: active_def ex_platform_def ex_env_def TK_RUN_def)
  have e: "expand_argv ex_platform ex_pass = Inr ex_pass"
    "expand_argv ex_platform ex_assert = Inr ex_assert"
    by (simp_all add: expand_argv_plain ex_pass_def ex_assert_def)
  have r: "tk_add_test ex_platform [] ex_pass = Inr [ex_pass]"
    "tk_add_test ex_platform [ex_pass] ex_assert = Inr [ex_pass, ex_assert]"
    "tk_add_test ex_platform [ex_pass, ex_assert] ex_pass =
       Inl (Fatal ''TestKit supports up to %d test cases'')"
    by (simp_all add: tk_add_test_active a e)
  show ?thesis
    using registry_capacity [of "[ex_pass]" ex_platform ex_assert "[ex_pass, ex_assert]"
        "[ex_pass, ex_assert]"]
      registry_capacity [of "[ex_pass, ex_assert]" ex_platform ex_pass "[]" "[]"]
    by (simp add: a e r)
qed

subsection \<open>The cleanup child\<close>

lemma test_child_fini: "test_child p (t\<lparr>fini := f\<rparr>) = test_child p t"
  by (simp add: test_child_def run_testcase_def
        cong: option.case_cong prod.case_cong run.case_cong)

lemma check_results_fini: "check_results p (t\<lparr>fini := f\<rparr>) st = check_results p t st"
  by (simp add: check_results_def)

lemma run_cleanup_Some:
  "fini t = Some f \<Longrightarrow>
   run_cleanup p i t =
     ([Forked Cleanup i (TK_TIME_LIMIT_SEC p) (fst f) (wait_status p (map_run (\<lambda>_. 0) (snd f)))],
      if wait_status p (map_run (\<lambda>_. 0) (snd f)) = None then Blocked else Finished)"
  by (cases f) (auto simp: run_cleanup_def fini_child_def split: option.splits)

lemma wait_status_returns:
  "0 < TK_TIME_LIMIT_SEC p \<or> e \<noteq> Hang \<Longrightarrow> \<exists>s. wait_status p e = Some s"
  by (cases e) auto

lemma ex_assert_child:
  "test_child ex_platform ex_assert = ([], ''1 == 2'' @ [NL], Some 134)"
  "test_child ex_verbose ex_assert = ([], ''1 == 2'' @ [NL], Some 134)"
  "test_child ex_terminal ex_assert = ([], ''1 == 2'' @ [NL], Some 134)"
  by (simp_all add: test_child_def run_testcase_def tk_assert_def ex_assert_def
        ex_platform_def ex_verbose_def ex_terminal_def ex_coredump_def SIGABRT_def)

lemma ex_pass_child:
  "test_child ex_platform (ex_pass\<lparr>fini := f\<rparr>) = ([], [], Some 0)"
  by (simp add: test_child_def run_testcase_def tk_assert_def ex_pass_def
        ex_platform_def W_EXITCODE_def)

lemma ex_check_results:
  "check_results ex_platform ex_assert 134 =
     (False, ''- [FAIL] eq (t.c:7) - Assertion fail'' @ [NL])"
  "check_results ex_verbose ex_assert 134 =
     (False, ''- [FAIL] eq (t.c:7) - Assertion fail'' @ [NL])"
  "check_results ex_platform (ex_pass\<lparr>fini := f\<rparr>) 0 =
     (True, ''- [PASS] sum (t.c:3)'' @ [NL])"
  by (simp_all add: check_results_def fail_msg_def WIFEXITED_def WTERMSIG_def WIFSIGNALED_def
        signed_char_def SIGABRT_def SIGALRM_def pcol_plain ex_facts)
     (simp_all add: ex_assert_def ex_pass_def)

text \<open>
  Claim C7. For a record with a \<^verbatim>\<open>fini\<close> callback whose test child has ended: the
  iteration forks the test child, prints the verdict (and the dump of a failed test in
  verbose mode), and only then forks one cleanup child, with the same alarm as the test
  child, and waits for it; this happens whether the verdict was PASS or FAIL. The wait
  returns unless the cleanup hangs with no alarm set. What the driver prints and the
  number of passed tests are the same whatever the cleanup callback does, and the same
  as without one.
\<close>

theorem cleanup_child:
  assumes "fini t = Some f" and "mmap_ok p i" and "test_child p t = (o0, buf, Some st)"
  shows "loop_body p v i t n =
      ([Forked Testcase i (TK_TIME_LIMIT_SEC p) o0 (Some st),
        Printf (snd (check_results p t st))]
       @ (if fst (check_results p t st) then [] else if v then dump_output p buf else [])
       @ [Forked Cleanup i (TK_TIME_LIMIT_SEC p) (fst f)
            (wait_status p (map_run (\<lambda>_. 0) (snd f)))],
       (if wait_status p (map_run (\<lambda>_. 0) (snd f)) = None then Blocked else Finished),
       (if fst (check_results p t st) then n + 1 else n)) \<and>
    (0 < TK_TIME_LIMIT_SEC p \<or> snd f \<noteq> Hang \<longrightarrow>
       (\<exists>s. wait_status p (map_run (\<lambda>_. 0) (snd f)) = Some s)) \<and>
    (\<forall>f'. stdout_of (fst (loop_body p v i (t\<lparr>fini := f'\<rparr>) n)) =
            stdout_of (fst (loop_body p v i t n)) \<and>
          snd (snd (loop_body p v i (t\<lparr>fini := f'\<rparr>) n)) = snd (snd (loop_body p v i t n)))"
proof (intro conjI allI impI)
  show "loop_body p v i t n =
      ([Forked Testcase i (TK_TIME_LIMIT_SEC p) o0 (Some st),
        Printf (snd (check_results p t st))]
       @ (if fst (check_results p t st) then [] else if v then dump_output p buf else [])
       @ [Forked Cleanup i (TK_TIME_LIMIT_SEC p) (fst f)
            (wait_status p (map_run (\<lambda>_. 0) (snd f)))],
       (if wait_status p (map_run (\<lambda>_. 0) (snd f)) = None then Blocked else Finished),
       (if fst (check_results p t st) then n + 1 else n))"
    using loop_body_status [OF assms(2,3)] run_cleanup_Some [OF assms(1)] by simp
next
  assume "0 < TK_TIME_LIMIT_SEC p \<or> snd f \<noteq> Hang"
  then have "0 < TK_TIME_LIMIT_SEC p \<or> map_run (\<lambda>_. 0::int) (snd f) \<noteq> Hang"
    by (cases "snd f") auto
  then show "\<exists>s. wait_status p (map_run (\<lambda>_. 0) (snd f)) = Some s"
    by (rule wait_status_returns)
next
  fix f'
  have c: "test_child p (t\<lparr>fini := f'\<rparr>) = (o0, buf, Some st)"
    using assms(3) by (simp add: test_child_fini)
  show "stdout_of (fst (loop_body p v i (t\<lparr>fini := f'\<rparr>) n)) =
        stdout_of (fst (loop_body p v i t n))"
    by (simp add: loop_body_status [OF assms(2,3)] loop_body_status [OF assms(2) c]
          check_results_fini stdout_of_append stdout_of_run_cleanup)
  show "snd (snd (loop_body p v i (t\<lparr>fini := f'\<rparr>) n)) = snd (snd (loop_body p v i t n))"
    by (simp add: loop_body_status [OF assms(2,3)] loop_body_status [OF assms(2) c]
          check_results_fini)
qed

theorem cleanup_child_witness:
  "fini ex_assert = Some ([], Kill SIGSEGV) \<and> mmap_ok ex_platform 0 \<and>
   test_child ex_platform ex_assert = ([], ''1 == 2'' @ [NL], Some 134) \<and>
   loop_body ex_platform False 0 ex_assert 0 =
     ([Forked Testcase 0 1 [] (Some 134),
       Printf (''- [FAIL] eq (t.c:7) - Assertion fail'' @ [NL]),
       Forked Cleanup 0 1 [] (Some 139)], Finished, 0) \<and>
   loop_body ex_platform False 0 (ex_pass\<lparr>fini := Some ([], Kill SIGSEGV)\<rparr>) 0 =
     ([Forked Testcase 0 1 [] (Some 0),
       Printf (''- [PASS] sum (t.c:3)'' @ [NL]),
       Forked Cleanup 0 1 [] (Some 139)], Finished, 1) \<and>
   stdout_of (fst (loop_body ex_platform False 0 (ex_assert\<lparr>fini := Some ([], Hang)\<rparr>) 0)) =
     stdout_of (fst (loop_body ex_platform False 0 ex_assert 0)) \<and>
   snd (snd (loop_body ex_platform False 0 (ex_assert\<lparr>fini := Some ([], Hang)\<rparr>) 0)) =
     snd (snd (loop_body ex_platform False 0 ex_assert 0))"
proof -
  have a: "fini ex_assert = Some ([], Kill SIGSEGV)"
    "fini (ex_pass\<lparr>fini := Some ([], Kill SIGSEGV)\<rparr>) = Some ([], Kill SIGSEGV)"
    by (simp_all add: ex_assert_def)
  have w: "SIGSEGV OR 128 = 139" by (simp add: SIGSEGV_def)
  show ?thesis
    using cleanup_child [of ex_assert "([], Kill SIGSEGV)" ex_platform 0 "[]"
        "''1 == 2'' @ [NL]" 134 False 0]
      cleanup_child [of "ex_pass\<lparr>fini := Some ([], Kill SIGSEGV)\<rparr>" "([], Kill SIGSEGV)"
        ex_platform 0 "[]" "[]" 0 False 0]
    by (simp add: a w ex_facts ex_assert_child ex_pass_child ex_check_results)
qed

subsection \<open>The dump of a failed test's output\<close>

lemma dump_format_plain: "\<not> isatty p \<Longrightarrow> printf_s (pcol p ''%s'' 90) buf = buf"
  by (simp add: pcol_def)

lemma dec_90: "dec 90 = ''90''"
  by code_simp

lemma dump_format_colour:
  "isatty p \<Longrightarrow> printf_s (pcol p ''%s'' 90) buf = [ESC] @ ''[0;90m'' @ buf @ [ESC] @ ''[0;0m''"
  by (simp add: pcol_def dec_90 ESC_def)

lemma stdout_of_dump_output:
  "stdout_of (dump_output p buf) =
     printf_s (pcol p ''%s'' 90) buf @ (if buf = [] \<or> last buf \<noteq> NL then [NL] else [])"
  by (simp add: dump_output_def)

lemma dump_output_plain:
  "\<not> isatty p \<Longrightarrow>
   dump_output p buf = Printf buf # (if buf = [] \<or> last buf \<noteq> NL then [Printf [NL]] else [])"
  by (simp add: dump_output_def dump_format_plain)

lemma ex_terminal_facts:
  "isatty ex_terminal" "mmap_ok ex_terminal i" "TK_TIME_LIMIT_SEC ex_terminal = 1"
  "coredump ex_terminal SIGSEGV"
  by (simp_all add: ex_terminal_def ex_platform_def ex_mmap_def ex_coredump_def)

lemma ex_terminal_check:
  "check_results ex_terminal ex_assert 134 =
     (False, fail_line ex_terminal ex_assert (pcol ex_terminal ''Assertion fail'' 35))"
proof -
  have "\<not> WIFEXITED 134" "WIFSIGNALED 134" "WTERMSIG 134 = SIGABRT"
    by (simp_all add: WIFEXITED_def WIFSIGNALED_def WTERMSIG_def signed_char_def SIGABRT_def)
  then show ?thesis
    by (simp add: check_results_failed fail_msg_def SIGABRT_def SIGALRM_def)
qed

lemma ex_assert_cleanup:
  "run_cleanup ex_verbose i ex_assert =
     ([Forked Cleanup i 1 [] (Some 139)], Finished)"
  "run_cleanup ex_terminal i ex_assert =
     ([Forked Cleanup i 1 [] (Some 139)], Finished)"
  by (simp_all add: run_cleanup_def fini_child_def ex_facts ex_terminal_facts ex_assert_def)
     (simp_all add: SIGSEGV_def)

text \<open>
  Claim C9 ends with: the dump always ends in a newline. On a terminal it need not: the
  captured text is printed between two colour sequences, and when the text already ends
  with a newline nothing follows the closing sequence, whose last character is \<^verbatim>\<open>m\<close>.
\<close>

theorem verbose_dump_counterexample:
  "isatty ex_terminal \<and>
   test_child ex_terminal ex_assert = ([], ''1 == 2'' @ [NL], Some 134) \<and>
   stdout_of (fst (loop_body ex_terminal True 0 ex_assert 0)) =
     fail_line ex_terminal ex_assert (pcol ex_terminal ''Assertion fail'' 35) @
     stdout_of (dump_output ex_terminal (''1 == 2'' @ [NL])) \<and>
   stdout_of (dump_output ex_terminal (''1 == 2'' @ [NL])) =
     [ESC] @ ''[0;90m1 == 2'' @ [NL] @ [ESC] @ ''[0;0m'' \<and>
   last (stdout_of (dump_output ex_terminal (''1 == 2'' @ [NL]))) = CHR ''m'' \<and>
   CHR ''m'' \<noteq> NL"
proof -
  have l: "stdout_of (fst (loop_body ex_terminal True 0 ex_assert 0)) =
     fail_line ex_terminal ex_assert (pcol ex_terminal ''Assertion fail'' 35) @
     stdout_of (dump_output ex_terminal (''1 == 2'' @ [NL]))"
    using loop_body_status [of ex_terminal 0 ex_assert "[]" "''1 == 2'' @ [NL]" 134 True 0]
    by (simp add: ex_terminal_facts ex_assert_child ex_terminal_check stdout_of_append
          stdout_of_run_cleanup)
  have d: "stdout_of (dump_output ex_terminal (''1 == 2'' @ [NL])) =
     [ESC] @ ''[0;90m1 == 2'' @ [NL] @ [ESC] @ ''[0;0m''"
    by (simp add: stdout_of_dump_output dump_format_colour ex_terminal_facts)
  have m: "last (stdout_of (dump_output ex_terminal (''1 == 2'' @ [NL]))) = CHR ''m''"
    unfolding d by simp
  have n: "CHR ''m'' \<noteq> NL" by (simp add: NL_def)
  show ?thesis
    using ex_terminal_facts(1) ex_assert_child(3) l d m n by blast
qed

text \<open>
  Claim C9, amended. In an iteration whose test child has ended, the captured output is
  printed exactly when verbose mode is on and the verdict is FAIL (the dump is never
  empty, and it is the only thing between the verdict line and the cleanup). What is
  printed is the captured text through the format of \<^verbatim>\<open>pcol("%s", 90)\<close>, then a
  newline if the text is empty or does not end with one. When the output is not a
  terminal this is the text itself, and the dump ends in a newline. On a terminal the
  text stands between the two colour sequences, and the dump ends in a newline when the
  extra newline is printed; otherwise it ends with the closing colour sequence, right
  after the text's own final newline.
\<close>

theorem verbose_dump:
  assumes "mmap_ok p i" and "test_child p t = (o0, buf, Some st)"
  shows "loop_body p v i t n =
      ([Forked Testcase i (TK_TIME_LIMIT_SEC p) o0 (Some st),
        Printf (snd (check_results p t st))]
       @ (if v \<and> \<not> fst (check_results p t st) then dump_output p buf else [])
       @ fst (run_cleanup p i t),
       snd (run_cleanup p i t),
       (if fst (check_results p t st) then n + 1 else n)) \<and>
    dump_output p buf \<noteq> [] \<and>
    stdout_of (dump_output p buf) =
      printf_s (pcol p ''%s'' 90) buf @ (if buf = [] \<or> last buf \<noteq> NL then [NL] else []) \<and>
    (\<not> isatty p \<longrightarrow>
       printf_s (pcol p ''%s'' 90) buf = buf \<and> last (stdout_of (dump_output p buf)) = NL) \<and>
    (isatty p \<longrightarrow>
       printf_s (pcol p ''%s'' 90) buf = [ESC] @ ''[0;90m'' @ buf @ [ESC] @ ''[0;0m'' \<and>
       last (stdout_of (dump_output p buf)) =
         (if buf = [] \<or> last buf \<noteq> NL then NL else CHR ''m''))"
proof (intro conjI impI)
  show "loop_body p v i t n =
      ([Forked Testcase i (TK_TIME_LIMIT_SEC p) o0 (Some st),
        Printf (snd (check_results p t st))]
       @ (if v \<and> \<not> fst (check_results p t st) then dump_output p buf else [])
       @ fst (run_cleanup p i t),
       snd (run_cleanup p i t),
       (if fst (check_results p t st) then n + 1 else n))"
    using loop_body_status [OF assms] by simp
  show "dump_output p buf \<noteq> []" by (simp add: dump_output_def)
  show "stdout_of (dump_output p buf) =
      printf_s (pcol p ''%s'' 90) buf @ (if buf = [] \<or> last buf \<noteq> NL then [NL] else [])"
    by (rule stdout_of_dump_output)
next
  assume "\<not> isatty p"
  then show "printf_s (pcol p ''%s'' 90) buf = buf"
    and "last (stdout_of (dump_output p buf)) = NL"
    by (simp_all add: stdout_of_dump_output dump_format_plain)
next
  assume "isatty p"
  then show "printf_s (pcol p ''%s'' 90) buf = [ESC] @ ''[0;90m'' @ buf @ [ESC] @ ''[0;0m''"
    and "last (stdout_of (dump_output p buf)) =
         (if buf = [] \<or> last buf \<noteq> NL then NL else CHR ''m'')"
    by (simp_all add: stdout_of_dump_output dump_format_colour)
qed

theorem verbose_dump_witness:
  "mmap_ok ex_verbose 0 \<and> \<not> isatty ex_verbose \<and> isatty ex_terminal \<and>
   test_child ex_verbose ex_assert = ([], ''1 == 2'' @ [NL], Some 134) \<and>
   loop_body ex_verbose True 0 ex_assert 0 =
     ([Forked Testcase 0 1 [] (Some 134),
       Printf (''- [FAIL] eq (t.c:7) - Assertion fail'' @ [NL]),
       Printf (''1 == 2'' @ [NL]),
       Forked Cleanup 0 1 [] (Some 139)], Finished, 0) \<and>
   loop_body ex_verbose False 0 ex_assert 0 =
     ([Forked Testcase 0 1 [] (Some 134),
       Printf (''- [FAIL] eq (t.c:7) - Assertion fail'' @ [NL]),
       Forked Cleanup 0 1 [] (Some 139)], Finished, 0) \<and>
   last (stdout_of (dump_output ex_verbose (''1 == 2'' @ [NL]))) = NL \<and>
   last (stdout_of (dump_output ex_terminal (''1 == 2'' @ [NL]))) = CHR ''m''"
proof -
  have n: "CHR ''2'' \<noteq> NL" by (simp add: NL_def)
  show ?thesis
    using verbose_dump [of ex_verbose 0 ex_assert "[]" "''1 == 2'' @ [NL]" 134 True 0]
      verbose_dump [of ex_verbose 0 ex_assert "[]" "''1 == 2'' @ [NL]" 134 False 0]
      verbose_dump [of ex_terminal 0 ex_assert "[]" "''1 == 2'' @ [NL]" 134 True 0]
    by (simp add: n ex_facts ex_terminal_facts ex_assert_child ex_check_results
          ex_assert_cleanup dump_output_plain)
qed

subsection \<open>The report of a whole run\<close>

lemma test_child_returns:
  assumes "0 < TK_TIME_LIMIT_SEC p"
  shows "\<exists>o0 buf st. test_child p t = (o0, buf, Some st)"
proof -
  obtain o0 buf e where r: "run_testcase p t = (o0, buf, e)"
    by (cases "run_testcase p t") auto
  obtain st where "wait_status p e = Some st"
    using wait_status_returns [of p e] assms by auto
  with r show ?thesis by (simp add: test_child_def)
qed

lemma run_cleanup_finished:
  "0 < TK_TIME_LIMIT_SEC p \<Longrightarrow> snd (run_cleanup p i t) = Finished"
proof (cases "fini t")
  case None
  then show ?thesis by (simp add: run_cleanup_def)
next
  case (Some f)
  assume "0 < TK_TIME_LIMIT_SEC p"
  then obtain s where "wait_status p (map_run (\<lambda>_. 0) (snd f)) = Some s"
    using wait_status_returns [of p "map_run (\<lambda>_. 0) (snd f)"] by auto
  then show ?thesis using Some by (simp add: run_cleanup_Some)
qed

lemma loop_body_report:
  assumes "0 < TK_TIME_LIMIT_SEC p" "mmap_ok p i"
  shows "\<exists>evs. loop_body p v i t n = (evs, Finished, if passes p t then n + 1 else n) \<and>
               stdout_of evs = report p v t"
proof -
  obtain o0 buf st where c: "test_child p t = (o0, buf, Some st)"
    using test_child_returns [OF assms(1)] by blast
  show ?thesis
    using loop_body_status [OF assms(2) c, of v n] run_cleanup_finished [OF assms(1), of i t]
    by (cases "WIFEXITED st")
       (simp_all add: c passes_def report_def check_results_exited check_results_failed
          stdout_of_append stdout_of_run_cleanup)
qed

lemma testcases_loop_report:
  assumes "0 < TK_TIME_LIMIT_SEC p"
  shows "\<forall>j < length ts. mmap_ok p (i + j) \<Longrightarrow>
    \<exists>evs. testcases_loop p v i ts n = (evs, Finished, n + length (filter (passes p) ts)) \<and>
          stdout_of evs = concat (map (report p v) ts)"
proof (induction ts arbitrary: i n)
  case Nil
  then show ?case by simp
next
  case (Cons t ts)
  have "mmap_ok p i" using Cons.prems by force
  then obtain evs where b: "loop_body p v i t n = (evs, Finished, if passes p t then n + 1 else n)"
    "stdout_of evs = report p v t"
    using loop_body_report [OF assms, of i v t n] by blast
  have "\<forall>j < length ts. mmap_ok p ((i + 1) + j)"
    using Cons.prems by force
  then obtain evs' where r:
    "testcases_loop p v (i + 1) ts (if passes p t then n + 1 else n) =
       (evs', Finished, (if passes p t then n + 1 else n) + length (filter (passes p) ts))"
    "stdout_of evs' = concat (map (report p v) ts)"
    using Cons.IH [of "i + 1" "if passes p t then n + 1 else n"] by blast
  show ?case
    using b r by (simp add: stdout_of_append)
qed

text \<open>
  Claim C3 speaks of every sequence of registered records. With an empty registry
  \<^verbatim>\<open>run_all_testcases\<close> returns at once and prints nothing, so the summary line
  \<^verbatim>\<open>- 0/0 test cases passed.\<close> does not appear.
\<close>

theorem run_all_empty_counterexample:
  "run_all_testcases ex_platform [] = ([], Finished, []) \<and>
   stdout_of (fst (run_all_testcases ex_platform [])) = [] \<and>
   summary_line 0 0 = ''- 0/0 test cases passed.'' @ [NL]"
proof -
  have "dec 0 = ''0''" by code_simp
  then show ?thesis by (simp add: run_all_testcases_def summary_line_def)
qed

lemma run_all_empty: "run_all_testcases p [] = ([], Finished, [])"
  by (simp add: run_all_testcases_def)

lemma run_all_nonempty:
  assumes "tests \<noteq> []" and "0 < TK_TIME_LIMIT_SEC p"
    and "\<forall>i < length tests. mmap_ok p i"
  shows "fst (snd (run_all_testcases p tests)) = Finished \<and>
    stdout_of (fst (run_all_testcases p tests)) =
      [NL] @ ''TestKit'' @ [NL] @
      concat (map (report p (getenv p TK_VERBOSE \<noteq> None)) tests) @
      summary_line (length (filter (passes p) tests)) (length tests) \<and>
    (\<forall>t v. passes p t \<longrightarrow> report p v t = pass_line p t) \<and>
    (\<forall>t v. \<not> passes p t \<longrightarrow>
       (\<exists>o0 buf st. test_child p t = (o0, buf, Some st) \<and>
          report p v t = fail_line p t (fail_msg p st) @
                         (if v then stdout_of (dump_output p buf) else [])))"
proof (intro conjI allI impI)
  obtain evs where l:
    "testcases_loop p (getenv p TK_VERBOSE \<noteq> None) 0 tests 0 =
       (evs, Finished, length (filter (passes p) tests))"
    "stdout_of evs = concat (map (report p (getenv p TK_VERBOSE \<noteq> None)) tests)"
    using testcases_loop_report [OF assms(2), of tests 0 "getenv p TK_VERBOSE \<noteq> None" 0]
      assms(3) by auto
  show "fst (snd (run_all_testcases p tests)) = Finished"
    using assms(1) l by (simp add: run_all_testcases_def)
  show "stdout_of (fst (run_all_testcases p tests)) =
      [NL] @ ''TestKit'' @ [NL] @
      concat (map (report p (getenv p TK_VERBOSE \<noteq> None)) tests) @
      summary_line (length (filter (passes p) tests)) (length tests)"
    using assms(1) l by (simp add: run_all_testcases_def stdout_of_append summary_line_def)
next
  fix t v
  assume "passes p t"
  then show "report p v t = pass_line p t"
    by (auto simp: passes_def report_def split: prod.splits option.splits)
next
  fix t v
  assume "\<not> passes p t"
  moreover obtain o0 buf st where "test_child p t = (o0, buf, Some st)"
    using test_child_returns [OF assms(2)] by blast
  ultimately show "\<exists>o0 buf st. test_child p t = (o0, buf, Some st) \<and>
          report p v t = fail_line p t (fail_msg p st) @
                         (if v then stdout_of (dump_output p buf) else [])"
    by (simp add: passes_def report_def)
qed

text \<open>
  Claim C3, amended. For an empty registry, on every platform, the run returns at once:
  its trace is empty, so it prints nothing, and the registry stays empty. For a registry
  that is not empty, with a positive time limit (so that every child ends) and every
  \<^verbatim>\<open>mmap\<close> succeeding, the run returns, and what it prints is the header, then for
  each record in registration order its report, then one summary line
  \<^verbatim>\<open>- <passed>/<total> test cases passed.\<close> with the number of records that pass
  and the number of records. The report of a record that passes is its PASS line; that
  of any other record is its FAIL line, followed in verbose mode by the dump of the
  captured output.
\<close>

theorem run_all_report:
  "run_all_testcases p [] = ([], Finished, []) \<and>
   stdout_of (fst (run_all_testcases p [])) = [] \<and>
   (tests \<noteq> [] \<and> 0 < TK_TIME_LIMIT_SEC p \<and> (\<forall>i < length tests. mmap_ok p i) \<longrightarrow>
      fst (snd (run_all_testcases p tests)) = Finished \<and>
      stdout_of (fst (run_all_testcases p tests)) =
        [NL] @ ''TestKit'' @ [NL] @
        concat (map (report p (getenv p TK_VERBOSE \<noteq> None)) tests) @
        summary_line (length (filter (passes p) tests)) (length tests) \<and>
      (\<forall>t v. passes p t \<longrightarrow> report p v t = pass_line p t) \<and>
      (\<forall>t v. \<not> passes p t \<longrightarrow>
         (\<exists>o0 buf st. test_child p t = (o0, buf, Some st) \<and>
            report p v t = fail_line p t (fail_msg p st) @
                           (if v then stdout_of (dump_output p buf) else []))))"
proof (intro conjI impI)
  show "run_all_testcases p [] = ([], Finished, [])" by (rule run_all_empty)
  then show "stdout_of (fst (run_all_testcases p [])) = []" by simp
next
  assume h: "tests \<noteq> [] \<and> 0 < TK_TIME_LIMIT_SEC p \<and> (\<forall>i < length tests. mmap_ok p i)"
  then have n: "fst (snd (run_all_testcases p tests)) = Finished \<and>
      stdout_of (fst (run_all_testcases p tests)) =
        [NL] @ ''TestKit'' @ [NL] @
        concat (map (report p (getenv p TK_VERBOSE \<noteq> None)) tests) @
        summary_line (length (filter (passes p) tests)) (length tests) \<and>
      (\<forall>t v. passes p t \<longrightarrow> report p v t = pass_line p t) \<and>
      (\<forall>t v. \<not> passes p t \<longrightarrow>
         (\<exists>o0 buf st. test_child p t = (o0, buf, Some st) \<and>
            report p v t = fail_line p t (fail_msg p st) @
                           (if v then stdout_of (dump_output p buf) else [])))"
    by (intro run_all_nonempty) simp_all
  from n show "fst (snd (run_all_testcases p tests)) = Finished" by (rule conjunct1)
  show "stdout_of (fst (run_all_testcases p tests)) =
        [NL] @ ''TestKit'' @ [NL] @
        concat (map (report p (getenv p TK_VERBOSE \<noteq> None)) tests) @
        summary_line (length (filter (passes p) tests)) (length tests)"
    by (rule n [THEN conjunct2, THEN conjunct1])
  show "\<forall>t v. passes p t \<longrightarrow> report p v t = pass_line p t"
    by (rule n [THEN conjunct2, THEN conjunct2, THEN conjunct1])
  show "\<forall>t v. \<not> passes p t \<longrightarrow>
         (\<exists>o0 buf st. test_child p t = (o0, buf, Some st) \<and>
            report p v t = fail_line p t (fail_msg p st) @
                           (if v then stdout_of (dump_output p buf) else []))"
    by (rule n [THEN conjunct2, THEN conjunct2, THEN conjunct2])
qed

theorem run_all_report_witness:
  "run_all_testcases ex_terminal [] = ([], Finished, []) \<and>
   [ex_pass, ex_assert] \<noteq> [] \<and> 0 < TK_TIME_LIMIT_SEC ex_platform \<and>
   mmap_ok ex_platform 0 \<and> mmap_ok ex_platform 1 \<and>
   fst (snd (run_all_testcases ex_platform [ex_pass, ex_assert])) = Finished \<and>
   stdout_of (fst (run_all_testcases ex_platform [ex_pass, ex_assert])) =
     [NL] @ ''TestKit'' @ [NL] @
     ''- [PASS] sum (t.c:3)'' @ [NL] @
     ''- [FAIL] eq (t.c:7) - Assertion fail'' @ [NL] @
     ''- 1/2 test cases passed.'' @ [NL]"
proof -
  have c: "test_child ex_platform ex_pass = ([], [], Some 0)"
    using ex_pass_child [of "fini ex_pass"] by simp
  have w: "WIFEXITED 0" "\<not> WIFEXITED 134" "WIFSIGNALED 134" "WTERMSIG 134 = SIGABRT"
    by (simp_all add: WIFEXITED_def WIFSIGNALED_def WTERMSIG_def signed_char_def SIGABRT_def)
  have p: "passes ex_platform ex_pass" "\<not> passes ex_platform ex_assert"
    by (simp_all add: passes_def c ex_assert_child w)
  have v: "getenv ex_platform TK_VERBOSE = None"
    by (simp add: ex_platform_def ex_env_def TK_VERBOSE_def)
  have r: "report ex_platform False ex_pass = ''- [PASS] sum (t.c:3)'' @ [NL]"
    "report ex_platform False ex_assert = ''- [FAIL] eq (t.c:7) - Assertion fail'' @ [NL]"
    by (simp_all add: report_def c ex_assert_child w ex_lines fail_msg_def pcol_plain ex_facts
          SIGABRT_def SIGALRM_def)
  have d: "dec (Suc 0) = ''1''" "dec (Suc (Suc 0)) = ''2''" by code_simp+
  have s: "summary_line (Suc 0) (Suc (Suc 0)) = ''- 1/2 test cases passed.'' @ [NL]"
    by (simp add: summary_line_def d)
  show ?thesis
    using run_all_report [of ex_terminal "[]"]
      run_all_report [of ex_platform "[ex_pass, ex_assert]"]
    by (simp add: ex_facts p v r s less_Suc_eq)
qed

end
